theory Spec2Isabelle
  imports Main
begin

section \<open>The REST action of the gateway (src/lib/components/rest.ts)\<close>

text \<open>
  The theory embeds \<^verbatim>\<open>createRestAction\<close> and the asynchronous \<^verbatim>\<open>action\<close> closure it
  returns. The closure is a straight-line pipeline with early returns; it is modelled as a
  function from its inputs to the pair of the trace of calls it makes to its collaborators
  (tracing context, hooks, transport, stats sink) and the settled value of its promise.

  Collaborators whose code is not part of the file (constants, the validator, the transport,
  the fallback error parser, the URL and JSON helpers) are fields of the record \<open>env\<close>, so every
  theorem holds for all of them. A callback the source wraps in \<^verbatim>\<open>try\<close>/\<^verbatim>\<open>catch\<close>
  (parameter producer, transform hooks, fallback parser, the two stringifications, the
  transport call) returns an \<open>outcome\<close> or a sum, and the source's handler is a branch of the
  model. The callbacks and helpers the source calls outside any handler (validator, endpoint
  selector, path-argument helpers, path function, URL parser, proxy-header functions, auth
  provider, query serializer, construction of a transport instance) return an \<open>outcome\<close> too:
  when one of them throws, the promise rejects with the thrown value and nothing after the
  call runs (result \<open>Thrown\<close>). The methods of the tracing context and the stats sink only
  record an event.

  Objects are plain JavaScript objects: a property read that finds no own property finds the
  member of \<^verbatim>\<open>Object.prototype\<close> of that name, if there is one. Callbacks return or throw;
  they do not change the objects they are given, and no object has an own property named
  \<^verbatim>\<open>__proto__\<close>.
\<close>

subsection \<open>Values\<close>

datatype json = JNull | JBool bool | JNum int | JStr string
  | JArr "json list" | JObj "(string \<times> json) list"

text \<open>JavaScript truthiness of a value; \<open>JNull\<close> also stands for \<^verbatim>\<open>undefined\<close> and \<^verbatim>\<open>false\<close>.\<close>

fun json_truthy :: "json \<Rightarrow> bool" where
  "json_truthy JNull = False"
| "json_truthy (JBool b) = b"
| "json_truthy (JNum n) = (n \<noteq> 0)"
| "json_truthy (JStr s) = (s \<noteq> [])"
| "json_truthy (JArr _) = True"
| "json_truthy (JObj _) = True"

datatype 'a outcome = Throws | Returns 'a

text \<open>The names of the members every plain object inherits from \<^verbatim>\<open>Object.prototype\<close>.\<close>

definition objectPrototype :: "string list" where
  "objectPrototype =
     [''constructor'', ''__defineGetter__'', ''__defineSetter__'', ''hasOwnProperty'',
      ''__lookupGetter__'', ''__lookupSetter__'', ''isPrototypeOf'', ''propertyIsEnumerable'',
      ''toString'', ''valueOf'', ''__proto__'', ''toLocaleString'']"

text \<open>
  A header object maps the names of its own properties to their values. An own property can
  have the value \<^verbatim>\<open>undefined\<close> (\<open>Some Undefined\<close>), which \<^verbatim>\<open>Object.assign\<close> and the spread
  operator copy like any other value. \<open>Member n\<close> is the inherited member named \<open>n\<close> (a
  function or the prototype object), which a read of a name without own property yields.
\<close>

datatype hvalue = Undefined | Null | Val string | Member string

type_synonym headers = "string \<rightharpoonup> hvalue"

text \<open>
  \<^verbatim>\<open>obj[name]\<close>: the own property, else the inherited member, else \<^verbatim>\<open>undefined\<close>.
\<close>

definition getProp :: "headers \<Rightarrow> string \<Rightarrow> hvalue" where
  "getProp h name =
     (case h name of
        Some v \<Rightarrow> v
      | None \<Rightarrow> if name \<in> set objectPrototype then Member name else Undefined)"

fun truthy :: "hvalue \<Rightarrow> bool" where
  "truthy Undefined = False"
| "truthy Null = False"
| "truthy (Val s) = (s \<noteq> [])"
| "truthy (Member n) = True"

text \<open>\<^verbatim>\<open>Object.assign(target, source)\<close> and \<^verbatim>\<open>{...target, ...source}\<close>\<close>

definition assign :: "headers \<Rightarrow> headers \<Rightarrow> headers" where
  "assign target source = target ++ source"

text \<open>\<^verbatim>\<open>_.omitBy(h, _.isUndefined)\<close>\<close>

definition omitUndefined :: "headers \<Rightarrow> headers" where
  "omitUndefined h = (\<lambda>name. if h name = Some Undefined then None else h name)"

definition string_truthy :: "string option \<Rightarrow> bool" where
  "string_truthy s = (case s of None \<Rightarrow> False | Some v \<Rightarrow> v \<noteq> [])"

definition number_truthy :: "int option \<Rightarrow> bool" where
  "number_truthy n = (case n of None \<Rightarrow> False | Some v \<Rightarrow> v \<noteq> 0)"

text \<open>\<^verbatim>\<open>a ?? b\<close>\<close>

definition nullish :: "'a option \<Rightarrow> 'a option \<Rightarrow> 'a option" where
  "nullish a b = (case a of Some v \<Rightarrow> Some v | None \<Rightarrow> b)"

subsection \<open>Endpoints and transport instances\<close>

text \<open>Transport settings (\<^verbatim>\<open>axiosConfig\<close>): a map from option name to a number.\<close>

type_synonym axios_config = "string \<rightharpoonup> int"

text \<open>
  What a read of the endpoint table yields: a base URL, an extended descriptor (base URL and
  transport overrides), or, for a name the table has no own entry for, the member of that
  name the table inherits.
\<close>

datatype endpoint = Plain string | Extended string "axios_config option" | Inherited string

type_synonym endpoints_config = "string \<rightharpoonup> endpoint"

fun endpoint_truthy :: "endpoint \<Rightarrow> bool" where
  "endpoint_truthy (Plain s) = (s \<noteq> [])"
| "endpoint_truthy (Extended p ac) = True"
| "endpoint_truthy (Inherited n) = True"

record client =
  cl_timeout :: "int option"
  cl_retries :: "int option"
  cl_axiosConfig :: "axios_config option"

text \<open>
  Modelled from the spec: \<^verbatim>\<open>getAxiosClient\<close> (utils/axios) is not in the source tree; the
  spec describes it as building an HTTP client instance from a timeout, a retry count and a
  transport config. The model keeps the three arguments the instance was built from.
\<close>

definition getAxiosClient :: "int option \<Rightarrow> int option \<Rightarrow> axios_config option \<Rightarrow> client" where
  "getAxiosClient t r ac = \<lparr>cl_timeout = t, cl_retries = r, cl_axiosConfig = ac\<rparr>"

text \<open>
  The instance a request goes through: \<open>Shared\<close> is the one \<^verbatim>\<open>defaultAxiosClient\<close> built
  when the action is created, \<open>PerCall\<close> an instance built during the dispatch.
\<close>

datatype transport = Shared client | PerCall client

subsection \<open>Configuration and call\<close>

datatype endpoint_selector =
    EndpointFn "endpoints_config option \<Rightarrow> json \<Rightarrow> endpoint option outcome"
  | EndpointKey string
  | EndpointUnset

datatype path_spec = PathFn "json \<Rightarrow> string outcome" | PathStatic string

datatype proxy_headers =
  ProxyFn "headers \<Rightarrow> headers outcome" | ProxyList "string list" | ProxyUnset

text \<open>
  What the auth-header provider hands back: a header object (the empty one when it returns
  nothing), or a promise of one. The source passes the returned value to \<^verbatim>\<open>Object.assign\<close>
  without awaiting it, and a promise has no own enumerable properties.
\<close>

datatype auth_result = AuthHeaders headers | AuthPromise headers

fun own_properties :: "auth_result \<Rightarrow> headers" where
  "own_properties (AuthHeaders h) = h"
| "own_properties (AuthPromise h) = Map.empty"

record auth_params =
  ap_serviceName :: string
  ap_requestHeaders :: headers
  ap_authArgs :: json

datatype body = Buffer | Data json

record params_output =
  po_body :: "body option"
  po_query :: "json option"
  po_headers :: "headers option"

datatype params_serializer =
  SerializerFn "json \<Rightarrow> string outcome" | SerializerObj "(json \<Rightarrow> string outcome) option"

record parsed_error =
  pe_status :: "int option"
  pe_code :: "string option"
  pe_message :: "string option"
  pe_details :: "json option"

record response_error =
  rsp_status :: int
  rsp_data :: "json option"

record raw_error =
  err_status :: "int option"
  err_response :: "response_error option"

record response =
  r_data :: json
  r_headers :: headers
  r_status :: int

record rest_config =
  cfg_method :: string
  cfg_path :: path_spec
  cfg_endpoint :: endpoint_selector
  cfg_validationSchema :: "json option"
  cfg_timeout :: "int option"
  cfg_retries :: "int option"
  cfg_idempotency :: bool
  cfg_proxyHeaders :: proxy_headers
  cfg_getAuthHeaders :: "(auth_params \<Rightarrow> auth_result outcome) option"
  cfg_params :: "(json \<Rightarrow> headers \<Rightarrow> params_output option outcome) option"
  cfg_paramsSerializer :: "params_serializer option"
  cfg_maxRedirects :: "int option"
  cfg_transformResponseData :: "(json \<Rightarrow> json \<Rightarrow> headers \<Rightarrow> json outcome) option"
  cfg_transformResponseError :: "(response_error \<Rightarrow> json \<Rightarrow> parsed_error option outcome) option"

record gateway_options =
  opt_serviceName :: "string option"
  opt_timeout :: "int option"
  opt_axiosConfig :: "axios_config option"
  opt_validationSchema :: "json option"
  opt_proxyHeaders :: proxy_headers
  opt_getAuthHeaders :: "(auth_params \<Rightarrow> auth_result outcome) option"
  opt_encodePathArgs :: "bool option"
  opt_sendStats :: bool

text \<open>The arguments of \<^verbatim>\<open>createRestAction\<close>, which the closure captures.\<close>

record closure =
  endpoints :: "endpoints_config option"
  config :: rest_config
  serviceKey :: string
  actionName :: string
  options :: gateway_options

text \<open>The argument of \<^verbatim>\<open>action\<close> (\<^verbatim>\<open>ApiActionConfig\<close>).\<close>

record action_config =
  ac_args :: json
  ac_requestId :: "string option"
  ac_headers :: headers
  ac_authArgs :: json
  ac_timeout :: "int option"

subsection \<open>Results and trace\<close>

record gateway_error =
  ge_status :: "int option"
  ge_message :: "string option"
  ge_code :: "string option"
  ge_details :: "json option"
  ge_requestId :: "string option"

record rejection =
  rj_error :: gateway_error
  rj_debugHeaders :: "headers option"

text \<open>
  How the promise settles: resolved with the payload and the debug headers, rejected with a
  rejection object built by the action, or rejected with the value a callback threw.
\<close>

datatype result = Resolved json headers | Rejected rejection | Thrown

record stats =
  st_timestamp :: nat
  st_service :: string
  st_action :: string
  st_requestId :: "string option"
  st_requestMethod :: string
  st_requestUrl :: string
  st_requestTime :: int
  st_responseSize :: "nat option option"
  st_status :: int

record request_config =
  rc_url :: string
  rc_method :: string
  rc_data :: "body option"
  rc_params :: "json option"
  rc_headers :: headers
  rc_maxRedirects :: "int option"
  rc_paramsSerializer :: "params_serializer option"

datatype event =
    CtxCreate string
  | CtxLog string
  | CtxLogError string
  | CtxStats stats
  | CtxEnd
  | HandleError string
  | SendStats stats headers headers
  | CallValidateArgs
  | CallEndpointFn
  | CallPathFn
  | CallProxyHeaders string
  | CallGetAuthHeaders
  | CallParams
  | CallGetAxiosClient client
  | CallRequest transport request_config
  | CallTransformResponseData
  | CallTransformResponseError
  | CallParseRestError

record env =
  DEFAULT_LANG_HEADER :: string
  DEFAULT_PROXY_HEADERS :: "string list"
  ECMA_STRING_SIZE :: nat
  Lang_Ru :: string
  VERSION :: string
  validateArgs :: "json \<Rightarrow> json \<Rightarrow> json outcome"
  encodePathParams :: "json \<Rightarrow> json outcome"
  getPathArgsProxy :: "json \<Rightarrow> bool option \<Rightarrow> json outcome"
  memberText :: "string \<Rightarrow> string"
  url_host :: "string \<Rightarrow> string option outcome"
  uuidv4 :: string
  querystring_stringify :: "json option \<Rightarrow> string outcome"
  getAxiosClient_throws :: "client \<Rightarrow> bool"
  encodeBody :: "body option \<Rightarrow> string outcome"
  stringify_length :: "json option \<Rightarrow> nat option outcome"
  getMetadata :: headers
  redactSensitiveHeaders :: "headers \<Rightarrow> headers"
  sanitizeDebugHeaders :: "headers \<Rightarrow> headers"
  request :: "transport \<Rightarrow> request_config \<Rightarrow> raw_error + response"
  parseRestError :: "raw_error \<Rightarrow> hvalue \<Rightarrow> parsed_error outcome"
  now_start :: nat
  now_end :: nat

text \<open>
  The record handed over from the preparation of a request (lines 139 to 265) to the
  transport call: what each callback returned and what was computed from it.
\<close>

record prepared =
  p_actionURL :: string
  p_host :: "string option"
  p_serviceProxy :: headers
  p_actionProxy :: headers
  p_auth :: auth_result
  p_params :: "params_output option"
  p_requestUrl :: string
  p_requestBody :: "string option"
  p_axiosClient :: transport

subsection \<open>Steps that may throw\<close>

text \<open>
  A step of the pipeline: the calls it records and the value it returns, unless it throws.
  \<open>andThen\<close> runs the next step only when the first returns, as consecutive statements do.
\<close>

type_synonym 'a step = "event list \<times> 'a outcome"

definition andThen :: "'a step \<Rightarrow> ('a \<Rightarrow> 'b step) \<Rightarrow> 'b step" where
  "andThen m f =
     (case snd m of
        Throws \<Rightarrow> (fst m, Throws)
      | Returns x \<Rightarrow> (fst m @ fst (f x), snd (f x)))"

definition yield :: "'a \<Rightarrow> 'a step" where
  "yield x = ([], Returns x)"

definition quietly :: "'a outcome \<Rightarrow> 'a step" where
  "quietly r = ([], r)"

definition calling :: "event \<Rightarrow> 'a outcome \<Rightarrow> 'a step" where
  "calling ev r = ([ev], r)"

definition recovered :: "event list \<times> 'a \<Rightarrow> 'a step" where
  "recovered m = (fst m, Returns (snd m))"

subsection \<open>createRestAction: what is computed once per action\<close>

definition timeout :: "closure \<Rightarrow> int option" where
  "timeout c = nullish (cfg_timeout (config c)) (opt_timeout (options c))"

definition defaultAxiosClient :: "closure \<Rightarrow> client" where
  "defaultAxiosClient c =
     getAxiosClient (timeout c) (cfg_retries (config c)) (opt_axiosConfig (options c))"

subsection \<open>action: names, validation, endpoint resolution\<close>

text \<open>Line 81: \<^verbatim>\<open>requestHeaders[DEFAULT_LANG_HEADER] || Lang.Ru\<close>.\<close>

definition lang :: "env \<Rightarrow> action_config \<Rightarrow> hvalue" where
  "lang env a =
     (if truthy (getProp (ac_headers a) (DEFAULT_LANG_HEADER env))
      then getProp (ac_headers a) (DEFAULT_LANG_HEADER env)
      else Val (Lang_Ru env))"

definition serviceName :: "closure \<Rightarrow> string" where
  "serviceName c =
     (case opt_serviceName (options c) of
        Some s \<Rightarrow> if s \<noteq> [] then s else serviceKey c
      | None \<Rightarrow> serviceKey c)"

definition json_option_truthy :: "json option \<Rightarrow> bool" where
  "json_option_truthy v = (case v of None \<Rightarrow> False | Some j \<Rightarrow> json_truthy j)"

definition validationSchema :: "closure \<Rightarrow> json option" where
  "validationSchema c =
     (if json_option_truthy (cfg_validationSchema (config c))
      then cfg_validationSchema (config c)
      else opt_validationSchema (options c))"

text \<open>
  Lines 94 to 115: the validator runs when a schema is configured; the value returned is
  \<^verbatim>\<open>invalidParams\<close> when it is truthy. The validator is called outside any handler.
\<close>

definition validation :: "env \<Rightarrow> closure \<Rightarrow> action_config \<Rightarrow> json option step" where
  "validation env c a =
     (case validationSchema c of
        None \<Rightarrow> yield None
      | Some schema \<Rightarrow>
          if json_truthy schema
          then andThen (calling CallValidateArgs (validateArgs env (ac_args a) schema))
                 (\<lambda>invalidParams.
                    yield (if json_truthy invalidParams then Some invalidParams else None))
          else yield None)"

text \<open>
  A read of the endpoint table, \<^verbatim>\<open>endpoints?.endpoint\<close> and \<^verbatim>\<open>_.get(endpoints, [key])\<close>:
  nothing when there is no table, else the own entry, else the inherited member of that name.
\<close>

definition lookup :: "endpoints_config option \<Rightarrow> string \<Rightarrow> endpoint option" where
  "lookup table key =
     (case table of
        None \<Rightarrow> None
      | Some t \<Rightarrow>
          (case t key of
             Some e \<Rightarrow> Some e
           | None \<Rightarrow> if key \<in> set objectPrototype then Some (Inherited key) else None))"

text \<open>
  Lines 117 to 125: the selector function, else the named key, else the entry \<^verbatim>\<open>endpoint\<close>
  of the table; the result counts as found when it is truthy. The selector function is called
  outside any handler.
\<close>

definition endpointData :: "closure \<Rightarrow> action_config \<Rightarrow> endpoint option step" where
  "endpointData c a =
     (case cfg_endpoint (config c) of
        EndpointFn f \<Rightarrow> calling CallEndpointFn (f (endpoints c) (ac_args a))
      | EndpointKey k \<Rightarrow>
          yield (if k \<noteq> [] then lookup (endpoints c) k else lookup (endpoints c) ''endpoint'')
      | EndpointUnset \<Rightarrow> yield (lookup (endpoints c) ''endpoint''))"

definition resolution :: "closure \<Rightarrow> action_config \<Rightarrow> endpoint option step" where
  "resolution c a =
     andThen (endpointData c a)
       (\<lambda>found. yield (case found of
                         None \<Rightarrow> None
                       | Some e \<Rightarrow> if endpoint_truthy e then Some e else None))"

definition errorText :: "closure \<Rightarrow> string" where
  "errorText c =
     ''Gateway config error. Endpoint has been not found in service '' @
       [CHR 0x22] @ serviceKey c @ [CHR 0x22]"

text \<open>
  Modelled from the spec: the type guards \<^verbatim>\<open>isExtendedActionEndpoint\<close> and
  \<^verbatim>\<open>isExtendedRestActionEndpoint\<close> (utils/common) are not in the source tree; the spec
  describes an endpoint entry as a plain base URL or an extended descriptor carrying a base
  URL plus per-endpoint transport overrides. Both guards hold exactly for \<open>Extended\<close>. An
  inherited member contributes the text \<open>memberText\<close> to the URL and has no transport overrides.
\<close>

fun actionEndpoint :: "env \<Rightarrow> endpoint \<Rightarrow> string" where
  "actionEndpoint env (Plain s) = s"
| "actionEndpoint env (Extended p ac) = p"
| "actionEndpoint env (Inherited n) = memberText env n"

fun endpointAxiosConfig :: "endpoint \<Rightarrow> axios_config" where
  "endpointAxiosConfig (Plain s) = Map.empty"
| "endpointAxiosConfig (Extended p ac) = (case ac of Some m \<Rightarrow> m | None \<Rightarrow> Map.empty)"
| "endpointAxiosConfig (Inherited n) = Map.empty"

text \<open>Lines 146 to 150; the helpers and the path function are called outside any handler.\<close>

definition pathArgs :: "env \<Rightarrow> closure \<Rightarrow> action_config \<Rightarrow> json outcome" where
  "pathArgs env c a =
     (if json_option_truthy (cfg_validationSchema (config c))
      then encodePathParams env (ac_args a)
      else getPathArgsProxy env (ac_args a) (opt_encodePathArgs (options c)))"

definition actionPath :: "env \<Rightarrow> closure \<Rightarrow> action_config \<Rightarrow> string step" where
  "actionPath env c a =
     andThen (quietly (pathArgs env c a))
       (\<lambda>args. case cfg_path (config c) of
                 PathFn f \<Rightarrow> calling CallPathFn (f args)
               | PathStatic p \<Rightarrow> yield p)"

subsection \<open>action: the outbound headers (lines 152 to 197)\<close>

definition seedHeaders :: "env \<Rightarrow> string option \<Rightarrow> hvalue \<Rightarrow> headers" where
  "seedHeaders env hst lg =
     [''host'' \<mapsto> (case hst of Some h \<Rightarrow> Val h | None \<Rightarrow> Undefined),
      ''accept'' \<mapsto> Val ''application/json, */*'',
      ''accept-encoding'' \<mapsto> Val ''gzip, deflate'',
      ''accept-language'' \<mapsto> lg,
      ''x-gateway-version'' \<mapsto> Val (VERSION env)]"

text \<open>
  Lines 163 to 173: a proxy-header setting that is a function is called and its result merged;
  a list of names is appended to the names to pass through. \<open>proxyFunction\<close> is the object
  merged (the empty one when the setting is not a function).
\<close>

fun proxyFunction :: "string \<Rightarrow> proxy_headers \<Rightarrow> headers \<Rightarrow> headers step" where
  "proxyFunction level (ProxyFn f) requestHeaders =
     calling (CallProxyHeaders level) (f requestHeaders)"
| "proxyFunction level (ProxyList l) requestHeaders = yield Map.empty"
| "proxyFunction level ProxyUnset requestHeaders = yield Map.empty"

fun proxyList :: "proxy_headers \<Rightarrow> string list" where
  "proxyList (ProxyList l) = l"
| "proxyList (ProxyFn f) = []"
| "proxyList ProxyUnset = []"

definition proxyHeaders :: "env \<Rightarrow> closure \<Rightarrow> string list" where
  "proxyHeaders env c =
     DEFAULT_PROXY_HEADERS env @ proxyList (opt_proxyHeaders (options c))
       @ proxyList (cfg_proxyHeaders (config c))"

text \<open>The loop of lines 175 to 179 over the names to pass through.\<close>

fun passthrough :: "headers \<Rightarrow> string list \<Rightarrow> headers \<Rightarrow> headers" where
  "passthrough requestHeaders [] actionHeaders = actionHeaders"
| "passthrough requestHeaders (headerName # names) actionHeaders =
     passthrough requestHeaders names
       (if getProp actionHeaders headerName = Undefined
        then actionHeaders(headerName \<mapsto> getProp requestHeaders headerName)
        else actionHeaders)"

definition withRequestId :: "action_config \<Rightarrow> headers \<Rightarrow> headers" where
  "withRequestId a h =
     (case ac_requestId a of
        Some r \<Rightarrow> if r \<noteq> [] then h(''x-request-id'' \<mapsto> Val r) else h
      | None \<Rightarrow> h)"

definition withIdempotency :: "env \<Rightarrow> closure \<Rightarrow> action_config \<Rightarrow> headers \<Rightarrow> headers" where
  "withIdempotency env c a h =
     (if cfg_idempotency (config c)
      then h(''idempotency-key'' \<mapsto>
             (if truthy (getProp (ac_headers a) ''idempotency-key'')
              then getProp (ac_headers a) ''idempotency-key''
              else Val (uuidv4 env)))
      else h)"

text \<open>
  Lines 189 to 194: the call of the auth-header provider, the action's if it has one, else the
  service's, outside any handler. With neither, the call of \<^verbatim>\<open>undefined\<close> throws.
\<close>

definition authParams :: "closure \<Rightarrow> action_config \<Rightarrow> auth_params" where
  "authParams c a =
     \<lparr>ap_serviceName = serviceName c, ap_requestHeaders = ac_headers a,
      ap_authArgs = ac_authArgs a\<rparr>"

definition authHeaders :: "closure \<Rightarrow> action_config \<Rightarrow> auth_result step" where
  "authHeaders c a =
     (case nullish (cfg_getAuthHeaders (config c)) (opt_getAuthHeaders (options c)) of
        Some provider \<Rightarrow> calling CallGetAuthHeaders (provider (authParams c a))
      | None \<Rightarrow> quietly Throws)"

text \<open>
  The header object after each step, given the host the URL parser found, the objects the
  service-level and action-level proxy-header functions returned and what the auth provider
  returned: up to the passthrough loop, and up to the pruning of line 197.
\<close>

definition headersAfterPassthrough ::
  "env \<Rightarrow> closure \<Rightarrow> action_config \<Rightarrow> string option \<Rightarrow> headers \<Rightarrow> headers \<Rightarrow> headers" where
  "headersAfterPassthrough env c a hst svc act =
     (let h1 = seedHeaders env hst (lang env a);
          h2 = assign h1 svc;
          h3 = assign h2 act
      in passthrough (ac_headers a) (proxyHeaders env c) h3)"

definition actionHeaders ::
  "env \<Rightarrow> closure \<Rightarrow> action_config \<Rightarrow> string option \<Rightarrow> headers \<Rightarrow> headers \<Rightarrow> auth_result
     \<Rightarrow> headers" where
  "actionHeaders env c a hst svc act auth =
     (let h4 = headersAfterPassthrough env c a hst svc act;
          h5 = withRequestId a h4;
          h6 = withIdempotency env c a h5;
          h7 = assign h6 (own_properties auth)
      in omitUndefined h7)"

subsection \<open>action: parameters, debug headers, transport instance, request\<close>

text \<open>
  Modelled from the spec: \<^verbatim>\<open>handleError\<close> (utils/common) is not in the source tree; the spec
  says a failure it is given is logged as recoverable and the pipeline continues. It is the
  event \<open>HandleError\<close> with the message it is called with.
\<close>

definition params ::
  "closure \<Rightarrow> action_config \<Rightarrow> headers \<Rightarrow> event list \<times> params_output option" where
  "params c a hdrs =
     (case cfg_params (config c) of
        None \<Rightarrow> ([], None)
      | Some f \<Rightarrow>
          (case f (ac_args a) hdrs of
             Returns p \<Rightarrow> ([CallParams], p)
           | Throws \<Rightarrow> ([CallParams, HandleError ''Getting config params failed''], None)))"

text \<open>The destructuring of line 209, with its defaults.\<close>

definition body_of :: "params_output option \<Rightarrow> body option" where
  "body_of p = (case p of None \<Rightarrow> None | Some out \<Rightarrow> po_body out)"

definition query_of :: "params_output option \<Rightarrow> json option" where
  "query_of p = (case p of None \<Rightarrow> None | Some out \<Rightarrow> po_query out)"

definition headers_of :: "params_output option \<Rightarrow> headers \<Rightarrow> headers" where
  "headers_of p hdrs =
     (case p of
        None \<Rightarrow> hdrs
      | Some out \<Rightarrow> (case po_headers out of None \<Rightarrow> hdrs | Some h \<Rightarrow> h))"

definition getConfigSerializerFunction :: "rest_config \<Rightarrow> (json \<Rightarrow> string outcome) option" where
  "getConfigSerializerFunction cfg =
     (case cfg_paramsSerializer cfg of
        Some (SerializerFn f) \<Rightarrow> Some f
      | Some (SerializerObj s) \<Rightarrow> s
      | None \<Rightarrow> None)"

text \<open>Lines 213 to 215; the serializer is called outside any handler.\<close>

definition preparedQuery :: "env \<Rightarrow> closure \<Rightarrow> json option \<Rightarrow> string outcome" where
  "preparedQuery env c query =
     (case getConfigSerializerFunction (config c) of
        Some serializer \<Rightarrow>
          (case query of
             Some q \<Rightarrow> if json_truthy q then serializer q else querystring_stringify env query
           | None \<Rightarrow> querystring_stringify env query)
      | None \<Rightarrow> querystring_stringify env query)"

definition requestUrl :: "env \<Rightarrow> closure \<Rightarrow> string \<Rightarrow> json option \<Rightarrow> string outcome" where
  "requestUrl env c url query =
     (case preparedQuery env c query of
        Throws \<Rightarrow> Throws
      | Returns q \<Rightarrow> Returns (url @ (if json_option_truthy query then ''?'' @ q else [])))"

text \<open>
  Lines 217 to 232: the preview of the body, kept when shorter than 256 characters.
  \<open>encodeBody\<close> stands for \<^verbatim>\<open>encodeURIComponent\<close> of the stringified body.
\<close>

definition requestBody :: "env \<Rightarrow> body option \<Rightarrow> event list \<times> string option" where
  "requestBody env b =
     (case (case b of Some Buffer \<Rightarrow> Returns ''[Buffer]'' | _ \<Rightarrow> encodeBody env b) of
        Throws \<Rightarrow> ([HandleError ''Stringify request body failed''], None)
      | Returns encodedRequestBody \<Rightarrow>
          ([], if length encodedRequestBody < 256 then Some encodedRequestBody else None))"

definition debugHeaders ::
  "env \<Rightarrow> closure \<Rightarrow> action_config \<Rightarrow> string \<Rightarrow> string option \<Rightarrow> headers \<Rightarrow> headers" where
  "debugHeaders env c a rurl rbody hdrs =
     (let d = [''x-api-request-method'' \<mapsto> Val (cfg_method (config c)),
               ''x-api-request-url'' \<mapsto> Val rurl,
               ''x-api-request-body'' \<mapsto>
                  (case rbody of Some b \<Rightarrow> if b \<noteq> [] then Val b else Null | None \<Rightarrow> Null),
               ''x-api-request-lang'' \<mapsto> lang env a,
               ''x-request-id'' \<mapsto>
                  (case ac_requestId a of Some r \<Rightarrow> Val r | None \<Rightarrow> Undefined),
               ''x-gateway-version'' \<mapsto> Val (VERSION env)]
      in if truthy (getProp hdrs ''content-type'')
         then d(''x-api-content-type'' \<mapsto> getProp hdrs ''content-type'')
         else d)"

text \<open>
  Lines 249 to 263. \<^verbatim>\<open>endpointAxiosConfig\<close> is an object on every path (the endpoint's
  \<^verbatim>\<open>axiosConfig\<close> when truthy, else \<^verbatim>\<open>{}\<close>), and every object is truthy. The construction of
  the instance is outside any handler; \<open>getAxiosClient_throws\<close> says for which instances it
  throws.
\<close>

definition object_truthy :: "axios_config \<Rightarrow> bool" where
  "object_truthy obj = True"

definition customActionTimeout :: "closure \<Rightarrow> action_config \<Rightarrow> axios_config \<Rightarrow> int option" where
  "customActionTimeout c a eac =
     nullish (ac_timeout a)
       (nullish (cfg_timeout (config c)) (nullish (eac ''timeout'') (timeout c)))"

definition customActionAxiosConfig :: "closure \<Rightarrow> axios_config \<Rightarrow> axios_config" where
  "customActionAxiosConfig c eac =
     (case opt_axiosConfig (options c) of Some m \<Rightarrow> m | None \<Rightarrow> Map.empty) ++ eac"

definition axiosClient ::
  "env \<Rightarrow> closure \<Rightarrow> action_config \<Rightarrow> axios_config \<Rightarrow> transport step" where
  "axiosClient env c a eac =
     (if number_truthy (ac_timeout a) \<or> object_truthy eac
      then (let cl = getAxiosClient (customActionTimeout c a eac) (cfg_retries (config c))
                       (Some (customActionAxiosConfig c eac))
            in calling (CallGetAxiosClient cl)
                 (if getAxiosClient_throws env cl then Throws else Returns (PerCall cl)))
      else yield (Shared (defaultAxiosClient c)))"

definition requestConfig ::
  "env \<Rightarrow> closure \<Rightarrow> string \<Rightarrow> params_output option \<Rightarrow> headers \<Rightarrow> request_config" where
  "requestConfig env c url p hdrs =
     \<lparr>rc_url = url, rc_method = cfg_method (config c), rc_data = body_of p,
      rc_params = query_of p, rc_headers = assign (getMetadata env) hdrs,
      rc_maxRedirects = cfg_maxRedirects (config c),
      rc_paramsSerializer = cfg_paramsSerializer (config c)\<rparr>"

text \<open>
  Lines 139 to 265 for a resolved endpoint \<open>e\<close>, in the order of the source: path arguments
  and path, host of the URL, the two proxy-header settings, the auth provider, the parameter
  producer (called with the composed headers), the query string, the body preview, the
  transport instance and the log entry. The first step that throws ends the preparation.
\<close>

definition prepare :: "env \<Rightarrow> closure \<Rightarrow> action_config \<Rightarrow> endpoint \<Rightarrow> prepared step" where
  "prepare env c a e =
     andThen (actionPath env c a) (\<lambda>path.
     andThen (quietly (url_host env (actionEndpoint env e @ path))) (\<lambda>hst.
     andThen (proxyFunction ''service'' (opt_proxyHeaders (options c)) (ac_headers a)) (\<lambda>svc.
     andThen (proxyFunction ''action'' (cfg_proxyHeaders (config c)) (ac_headers a)) (\<lambda>act.
     andThen (authHeaders c a) (\<lambda>auth.
     andThen (recovered (params c a (actionHeaders env c a hst svc act auth))) (\<lambda>p.
     andThen (quietly (requestUrl env c (actionEndpoint env e @ path) (query_of p))) (\<lambda>rurl.
     andThen (recovered (requestBody env (body_of p))) (\<lambda>rbody.
     andThen (axiosClient env c a (endpointAxiosConfig e)) (\<lambda>cl.
     andThen ([CtxLog ''Starting request''], Returns ()) (\<lambda>u.
     yield \<lparr>p_actionURL = actionEndpoint env e @ path, p_host = hst, p_serviceProxy = svc,
            p_actionProxy = act, p_auth = auth, p_params = p, p_requestUrl = rurl,
            p_requestBody = rbody, p_axiosClient = cl\<rparr>))))))))))"

text \<open>The values of lines 197 to 283 for a prepared request.\<close>

definition composedHeaders :: "env \<Rightarrow> closure \<Rightarrow> action_config \<Rightarrow> prepared \<Rightarrow> headers" where
  "composedHeaders env c a p =
     actionHeaders env c a (p_host p) (p_serviceProxy p) (p_actionProxy p) (p_auth p)"

definition finalHeaders :: "env \<Rightarrow> closure \<Rightarrow> action_config \<Rightarrow> prepared \<Rightarrow> headers" where
  "finalHeaders env c a p = headers_of (p_params p) (composedHeaders env c a p)"

definition callDebugHeaders :: "env \<Rightarrow> closure \<Rightarrow> action_config \<Rightarrow> prepared \<Rightarrow> headers" where
  "callDebugHeaders env c a p =
     debugHeaders env c a (p_requestUrl p) (p_requestBody p) (finalHeaders env c a p)"

definition callRequestConfig ::
  "env \<Rightarrow> closure \<Rightarrow> action_config \<Rightarrow> prepared \<Rightarrow> request_config" where
  "callRequestConfig env c a p =
     requestConfig env c (p_actionURL p) (p_params p) (finalHeaders env c a p)"

text \<open>Line 292: the transport call, which resolves (\<open>Inr\<close>) or throws (\<open>Inl\<close>).\<close>

definition transportCall ::
  "env \<Rightarrow> closure \<Rightarrow> action_config \<Rightarrow> prepared \<Rightarrow> raw_error + response" where
  "transportCall env c a p = request env (p_axiosClient p) (callRequestConfig env c a p)"

subsection \<open>action: telemetry\<close>

text \<open>
  \<^verbatim>\<open>getRestResponseSize\<close>: \<open>stringify_length\<close> stands for the length of
  \<^verbatim>\<open>JSON.stringify(data)\<close>, which is undefined for undefined data (the product is then not a
  number, \<open>None\<close>) and may throw.
\<close>

definition getRestResponseSize :: "env \<Rightarrow> json option \<Rightarrow> event list \<times> nat option" where
  "getRestResponseSize env d =
     (case stringify_length env d of
        Throws \<Rightarrow> ([HandleError ''Calculate response size failed''], Some 0)
      | Returns n \<Rightarrow> ([], map_option (\<lambda>l. ECMA_STRING_SIZE env * l) n))"

text \<open>
  \<^verbatim>\<open>requestData\<close> completed to the record handed to the sink (its status field is
  \<^verbatim>\<open>restStatus\<close>) or to \<^verbatim>\<open>ctx.stats\<close> (\<^verbatim>\<open>responseStatus\<close>, no size).
\<close>

definition requestData ::
  "env \<Rightarrow> closure \<Rightarrow> action_config \<Rightarrow> string \<Rightarrow> nat option option \<Rightarrow> int \<Rightarrow> stats" where
  "requestData env c a url sz status =
     \<lparr>st_timestamp = now_start env, st_service = serviceName c, st_action = actionName c,
      st_requestId = ac_requestId a, st_requestMethod = cfg_method (config c),
      st_requestUrl = url, st_requestTime = int (now_end env) - int (now_start env),
      st_responseSize = sz, st_status = status\<rparr>"

text \<open>
  Lines 311 to 327 and 370 to 390: the one call that reports the record, to the sink when
  \<^verbatim>\<open>options.sendStats\<close> is set, else to \<^verbatim>\<open>ctx.stats\<close>. The size is computed (and its
  failure handled) while the sink's argument is built.
\<close>

definition statsCall ::
  "env \<Rightarrow> closure \<Rightarrow> action_config \<Rightarrow> string \<Rightarrow> headers \<Rightarrow> headers \<Rightarrow> json option \<Rightarrow> int
     \<Rightarrow> event" where
  "statsCall env c a url hdrs dbg d status =
     (if opt_sendStats (options c)
      then SendStats (requestData env c a url (Some (snd (getRestResponseSize env d))) status)
             (redactSensitiveHeaders env hdrs) (sanitizeDebugHeaders env dbg)
      else CtxStats (requestData env c a url None status))"

definition emitStats ::
  "env \<Rightarrow> closure \<Rightarrow> action_config \<Rightarrow> string \<Rightarrow> headers \<Rightarrow> headers \<Rightarrow> json option \<Rightarrow> int
     \<Rightarrow> event list" where
  "emitStats env c a url hdrs dbg d status =
     (if opt_sendStats (options c) then fst (getRestResponseSize env d) else [])
     @ [statsCall env c a url hdrs dbg d status]"

subsection \<open>action: the two outcomes of the transport call\<close>

definition transformResponseData ::
  "closure \<Rightarrow> action_config \<Rightarrow> response \<Rightarrow> event list \<times> json" where
  "transformResponseData c a resp =
     (case cfg_transformResponseData (config c) of
        None \<Rightarrow> ([], r_data resp)
      | Some f \<Rightarrow>
          (case f (r_data resp) (ac_args a) (r_headers resp) of
             Returns d \<Rightarrow> ([CallTransformResponseData, CtxLog ''Transformed response data''], d)
           | Throws \<Rightarrow>
               ([CallTransformResponseData, HandleError ''Transform response data failed''],
                r_data resp)))"

definition transformResponseError ::
  "closure \<Rightarrow> action_config \<Rightarrow> raw_error \<Rightarrow> event list \<times> parsed_error option" where
  "transformResponseError c a error =
     (case err_response error of
        None \<Rightarrow> ([], None)
      | Some r \<Rightarrow>
          (case cfg_transformResponseError (config c) of
             None \<Rightarrow> ([], None)
           | Some f \<Rightarrow>
               (case f r (ac_args a) of
                  Returns p \<Rightarrow>
                    ([CallTransformResponseError, CtxLog ''Transformed response error''], p)
                | Throws \<Rightarrow>
                    ([CallTransformResponseError,
                      HandleError ''Transform response error failed''], None))))"

definition parsedError ::
  "env \<Rightarrow> closure \<Rightarrow> action_config \<Rightarrow> raw_error \<Rightarrow> event list \<times> parsed_error option" where
  "parsedError env c a error =
     (case snd (transformResponseError c a error) of
        Some p \<Rightarrow> (fst (transformResponseError c a error), Some p)
      | None \<Rightarrow>
          (case parseRestError env error (lang env a) of
             Returns p \<Rightarrow> (fst (transformResponseError c a error) @ [CallParseRestError], Some p)
           | Throws \<Rightarrow>
               (fst (transformResponseError c a error) @
                  [CallParseRestError, HandleError ''Error parse rest error''], None)))"

text \<open>
  Line 368: \<^verbatim>\<open>_.get(parsedError, 'status') || _.get(error, 'status', 500)\<close>. The left operand
  counts when it is truthy (a number other than 0).
\<close>

definition responseStatus :: "parsed_error option \<Rightarrow> raw_error \<Rightarrow> int" where
  "responseStatus p error =
     (case (case p of None \<Rightarrow> None | Some pe \<Rightarrow> pe_status pe) of
        Some s \<Rightarrow>
          if s \<noteq> 0 then s else (case err_status error of Some e \<Rightarrow> e | None \<Rightarrow> 500)
      | None \<Rightarrow> (case err_status error of Some e \<Rightarrow> e | None \<Rightarrow> 500))"

text \<open>Line 401: \<^verbatim>\<open>{...parsedError, requestId}\<close>.\<close>

definition spreadError :: "parsed_error option \<Rightarrow> string option \<Rightarrow> gateway_error" where
  "spreadError p rid =
     (case p of
        None \<Rightarrow>
          \<lparr>ge_status = None, ge_message = None, ge_code = None, ge_details = None,
           ge_requestId = rid\<rparr>
      | Some pe \<Rightarrow>
          \<lparr>ge_status = pe_status pe, ge_message = pe_message pe, ge_code = pe_code pe,
           ge_details = pe_details pe, ge_requestId = rid\<rparr>)"

subsection \<open>action: the pipeline\<close>

text \<open>Lines 292 to 332: the transport call resolved with \<open>resp\<close>.\<close>

definition onResponse ::
  "env \<Rightarrow> closure \<Rightarrow> action_config \<Rightarrow> prepared \<Rightarrow> response \<Rightarrow> event list \<times> result" where
  "onResponse env c a p resp =
     (fst (transformResponseData c a resp)
      @ emitStats env c a (p_actionURL p) (finalHeaders env c a p)
          (callDebugHeaders env c a p) (Some (snd (transformResponseData c a resp))) 200
      @ [CtxLog ''Request completed'', CtxEnd],
      Resolved (snd (transformResponseData c a resp)) (callDebugHeaders env c a p))"

text \<open>Lines 333 to 404: the transport call threw \<open>error\<close>.\<close>

definition onError ::
  "env \<Rightarrow> closure \<Rightarrow> action_config \<Rightarrow> prepared \<Rightarrow> raw_error \<Rightarrow> event list \<times> result" where
  "onError env c a p error =
     (fst (parsedError env c a error)
      @ emitStats env c a (p_actionURL p) (finalHeaders env c a p)
          (callDebugHeaders env c a p)
          (case err_response error of None \<Rightarrow> None | Some r \<Rightarrow> rsp_data r)
          (responseStatus (snd (parsedError env c a error)) error)
      @ [CtxLogError ''Request failed'', CtxEnd],
      Rejected \<lparr>rj_error = spreadError (snd (parsedError env c a error)) (ac_requestId a),
                rj_debugHeaders = Some (callDebugHeaders env c a p)\<rparr>)"

text \<open>Lines 291 to 404 for a prepared request.\<close>

definition afterPreparation ::
  "env \<Rightarrow> closure \<Rightarrow> action_config \<Rightarrow> prepared \<Rightarrow> event list \<times> result" where
  "afterPreparation env c a p =
     (case transportCall env c a p of
        Inr resp \<Rightarrow>
          (CallRequest (p_axiosClient p) (callRequestConfig env c a p)
             # fst (onResponse env c a p resp),
           snd (onResponse env c a p resp))
      | Inl error \<Rightarrow>
          (CallRequest (p_axiosClient p) (callRequestConfig env c a p)
             # fst (onError env c a p error),
           snd (onError env c a p error)))"

definition spanOpening :: "closure \<Rightarrow> event list" where
  "spanOpening c =
     [CtxCreate (''Gateway '' @ serviceName c @ '' '' @ actionName c @ '' [rest]''),
      CtxLog ''Initiating request'']"

definition validationError :: "json \<Rightarrow> rejection" where
  "validationError invalidParams =
     \<lparr>rj_error =
        \<lparr>ge_status = Some 400, ge_message = Some ''Validation failed'',
         ge_code = Some ''INVALID_PARAMS'',
         ge_details = Some (JObj [(''title'', JStr ''Invalid params''),
                                  (''description'', invalidParams)]),
         ge_requestId = None\<rparr>,
      rj_debugHeaders = Some Map.empty\<rparr>"

definition endpointError :: "closure \<Rightarrow> rejection" where
  "endpointError c =
     \<lparr>rj_error =
        \<lparr>ge_status = Some 400, ge_message = Some (errorText c),
         ge_code = Some ''ENDPOINT_NOT_FOUND'', ge_details = None, ge_requestId = None\<rparr>,
      rj_debugHeaders = None\<rparr>"

text \<open>
  The closure returned by \<^verbatim>\<open>createRestAction\<close>: the trace of its calls and the value its
  promise settles with. Where the validator, the endpoint selector or a step of the
  preparation throws, the trace stops at that call.
\<close>

definition action :: "env \<Rightarrow> closure \<Rightarrow> action_config \<Rightarrow> event list \<times> result" where
  "action env c a =
     (case snd (validation env c a) of
        Throws \<Rightarrow> (spanOpening c @ fst (validation env c a), Thrown)
      | Returns (Some invalidParams) \<Rightarrow>
          (spanOpening c @ fst (validation env c a) @ [CtxLog ''Invalid params'', CtxEnd],
           Rejected (validationError invalidParams))
      | Returns None \<Rightarrow>
          (case snd (resolution c a) of
             Throws \<Rightarrow>
               (spanOpening c @ fst (validation env c a) @ fst (resolution c a), Thrown)
           | Returns None \<Rightarrow>
               (spanOpening c @ fst (validation env c a) @ fst (resolution c a)
                  @ [CtxLog (errorText c), CtxEnd],
                Rejected (endpointError c))
           | Returns (Some e) \<Rightarrow>
               (case snd (prepare env c a e) of
                  Throws \<Rightarrow>
                    (spanOpening c @ fst (validation env c a) @ fst (resolution c a)
                       @ fst (prepare env c a e),
                     Thrown)
                | Returns p \<Rightarrow>
                    (spanOpening c @ fst (validation env c a) @ fst (resolution c a)
                       @ fst (prepare env c a e) @ fst (afterPreparation env c a p),
                     snd (afterPreparation env c a p)))))"

text \<open>Observations on a trace.\<close>

fun is_stats :: "event \<Rightarrow> bool" where
  "is_stats (CtxStats s) = True"
| "is_stats (SendStats s h d) = True"
| "is_stats _ = False"

fun is_request :: "event \<Rightarrow> bool" where
  "is_request (CallRequest t rc) = True"
| "is_request _ = False"

fun via_sink :: "event \<Rightarrow> bool" where
  "via_sink (SendStats s h d) = True"
| "via_sink _ = False"

text \<open>The header object and the transport instance of the first transport call of a trace.\<close>

fun transmitted :: "event list \<Rightarrow> headers option" where
  "transmitted [] = None"
| "transmitted (CallRequest t rc # evs) = Some (rc_headers rc)"
| "transmitted (ev # evs) = transmitted evs"

fun instance_used :: "event list \<Rightarrow> transport option" where
  "instance_used [] = None"
| "instance_used (CallRequest t rc # evs) = Some t"
| "instance_used (ev # evs) = instance_used evs"

fun rejection_of :: "result \<Rightarrow> rejection option" where
  "rejection_of (Rejected r) = Some r"
| "rejection_of (Resolved d h) = None"
| "rejection_of Thrown = None"

text \<open>The status of each stats emission of a trace, in order.\<close>

fun reported :: "event list \<Rightarrow> int list" where
  "reported [] = []"
| "reported (CtxStats s # evs) = st_status s # reported evs"
| "reported (SendStats s h d # evs) = st_status s # reported evs"
| "reported (ev # evs) = reported evs"

definition parsedStatus :: "parsed_error option \<Rightarrow> int option" where
  "parsedStatus p = (case p of None \<Rightarrow> None | Some pe \<Rightarrow> pe_status pe)"

text \<open>Whether the parameter producer returned a \<^verbatim>\<open>headers\<close> object of its own.\<close>

definition headersOverridden :: "prepared \<Rightarrow> bool" where
  "headersOverridden p =
     (case p_params p of
        None \<Rightarrow> False
      | Some out \<Rightarrow> po_headers out \<noteq> None)"

text \<open>An entry of the header object of the first transport call of a trace.\<close>

definition sent :: "event list \<Rightarrow> string \<Rightarrow> hvalue option" where
  "sent tr name = (case transmitted tr of None \<Rightarrow> None | Some h \<Rightarrow> h name)"

fun is_end :: "event \<Rightarrow> bool" where
  "is_end CtxEnd = True"
| "is_end _ = False"

definition emissions :: "event list \<Rightarrow> nat" where
  "emissions tr = length (filter is_stats tr)"

definition closings :: "event list \<Rightarrow> nat" where
  "closings tr = length (filter is_end tr)"

text \<open>
  The calls made up to and including the transport call, for a dispatch that passes
  validation, resolves the endpoint \<open>e\<close> and prepares the request \<open>p\<close>.
\<close>

definition settled ::
  "env \<Rightarrow> closure \<Rightarrow> action_config \<Rightarrow> endpoint \<Rightarrow> prepared \<Rightarrow> event list" where
  "settled env c a e p =
     spanOpening c @ fst (validation env c a) @ fst (resolution c a) @ fst (prepare env c a e)
       @ [CallRequest (p_axiosClient p) (callRequestConfig env c a p)]"

text \<open>A list of calls without stats emission, closing of the span or transport call.\<close>

definition quiet :: "event list \<Rightarrow> bool" where
  "quiet evs =
     (filter is_stats evs = [] \<and> filter is_end evs = [] \<and> filter is_request evs = [])"

subsection \<open>Example dispatches\<close>

text \<open>
  A small gateway: one service with a default endpoint, an action \<^verbatim>\<open>GET /ping\<close> and a
  transport that answers 204. The validator reports null arguments, and the helper that
  encodes path arguments throws on them. The variants change one setting each.
\<close>

definition env0 :: env where
  "env0 =
     \<lparr>DEFAULT_LANG_HEADER = ''accept-language'', DEFAULT_PROXY_HEADERS = [''x-trace''],
      ECMA_STRING_SIZE = 2, Lang_Ru = ''ru'', VERSION = ''1.0.0'',
      validateArgs = (\<lambda>args schema.
         Returns (case args of JNull \<Rightarrow> JStr ''args: required'' | _ \<Rightarrow> JNull)),
      encodePathParams = (\<lambda>args. case args of JNull \<Rightarrow> Throws | _ \<Rightarrow> Returns args),
      getPathArgsProxy = (\<lambda>args enc. Returns args),
      memberText = (\<lambda>n. ''function '' @ n @ ''() { [native code] }''),
      url_host = (\<lambda>url. Returns (Some ''backend'')),
      uuidv4 = ''generated-key'',
      querystring_stringify = (\<lambda>q. Returns []),
      getAxiosClient_throws = (\<lambda>cl. False),
      encodeBody = (\<lambda>b. Returns ''undefined''),
      stringify_length = (\<lambda>d. Returns (Some 6)),
      getMetadata = Map.empty,
      redactSensitiveHeaders = (\<lambda>h. h),
      sanitizeDebugHeaders = (\<lambda>h. h),
      request = (\<lambda>t rc. Inr \<lparr>r_data = JStr ''pong'', r_headers = Map.empty, r_status = 204\<rparr>),
      parseRestError = (\<lambda>error lg. Returns \<lparr>pe_status = err_status error, pe_code = Some ''UPSTREAM'',
                                  pe_message = Some ''Request failed'', pe_details = None\<rparr>),
      now_start = 100, now_end = 130\<rparr>"

definition config0 :: rest_config where
  "config0 =
     \<lparr>cfg_method = ''GET'', cfg_path = PathStatic ''/ping'', cfg_endpoint = EndpointUnset,
      cfg_validationSchema = None, cfg_timeout = None, cfg_retries = None,
      cfg_idempotency = False, cfg_proxyHeaders = ProxyUnset, cfg_getAuthHeaders = None,
      cfg_params = None, cfg_paramsSerializer = None, cfg_maxRedirects = None,
      cfg_transformResponseData = None, cfg_transformResponseError = None\<rparr>"

definition options0 :: gateway_options where
  "options0 =
     \<lparr>opt_serviceName = None, opt_timeout = Some 5000, opt_axiosConfig = None,
      opt_validationSchema = None, opt_proxyHeaders = ProxyUnset,
      opt_getAuthHeaders = Some (\<lambda>p. Returns (AuthHeaders Map.empty)),
      opt_encodePathArgs = None,
      opt_sendStats = False\<rparr>"

definition closure0 :: closure where
  "closure0 =
     \<lparr>endpoints = Some [''endpoint'' \<mapsto> Plain ''http://backend''], config = config0,
      serviceKey = ''svc'', actionName = ''ping'', options = options0\<rparr>"

definition call0 :: action_config where
  "call0 =
     \<lparr>ac_args = JObj [], ac_requestId = Some ''req-1'', ac_headers = [''x'' \<mapsto> Val ''1''],
      ac_authArgs = JNull, ac_timeout = None\<rparr>"

definition backend :: endpoint where
  "backend = Plain ''http://backend''"

text \<open>The request the example dispatch prepares.\<close>

definition prepared0 :: prepared where
  "prepared0 =
     \<lparr>p_actionURL = ''http://backend/ping'', p_host = Some ''backend'',
      p_serviceProxy = Map.empty, p_actionProxy = Map.empty, p_auth = AuthHeaders Map.empty,
      p_params = None, p_requestUrl = ''http://backend/ping'',
      p_requestBody = Some ''undefined'',
      p_axiosClient = PerCall \<lparr>cl_timeout = Some 5000, cl_retries = None,
                               cl_axiosConfig = Some Map.empty\<rparr>\<rparr>"

definition closure_schema :: closure where
  "closure_schema = closure0\<lparr>config := config0\<lparr>cfg_validationSchema := Some (JObj [])\<rparr>\<rparr>"

definition call_invalid :: action_config where
  "call_invalid = call0\<lparr>ac_args := JNull\<rparr>"

text \<open>A validator that accepts everything.\<close>

definition env_lenient :: env where
  "env_lenient = env0\<lparr>validateArgs := (\<lambda>args schema. Returns JNull)\<rparr>"

definition closure_lost :: closure where
  "closure_lost = closure0\<lparr>endpoints := None\<rparr>"

definition closure_schema_lost :: closure where
  "closure_schema_lost = closure_schema\<lparr>endpoints := None\<rparr>"

text \<open>The action names the endpoint \<^verbatim>\<open>toString\<close>, for which the table has no entry.\<close>

definition closure_toString :: closure where
  "closure_toString = closure0\<lparr>config := config0\<lparr>cfg_endpoint := EndpointKey ''toString''\<rparr>\<rparr>"

definition env_down :: env where
  "env_down = env0\<lparr>request := (\<lambda>t rc. Inl \<lparr>err_status = Some 503,
       err_response = Some \<lparr>rsp_status = 503, rsp_data = None\<rparr>\<rparr>)\<rparr>"

text \<open>The transport throws a value without status or response and the fallback parser throws.\<close>

definition bare :: raw_error where
  "bare = \<lparr>err_status = None, err_response = None\<rparr>"

definition env_bare :: env where
  "env_bare = env0\<lparr>request := (\<lambda>t rc. Inl \<lparr>err_status = None, err_response = None\<rparr>),
                    parseRestError := (\<lambda>error lg. Throws)\<rparr>"

definition down :: raw_error where
  "down = \<lparr>err_status = Some 503, err_response = Some \<lparr>rsp_status = 503, rsp_data = None\<rparr>\<rparr>"

definition pong :: response where
  "pong = \<lparr>r_data = JStr ''pong'', r_headers = Map.empty, r_status = 204\<rparr>"

text \<open>A response-transform hook that throws.\<close>

definition closure_broken_hook :: closure where
  "closure_broken_hook =
     closure0\<lparr>config := config0\<lparr>cfg_transformResponseData := Some (\<lambda>d args h. Throws)\<rparr>\<rparr>"

text \<open>A custom stats sink is configured.\<close>

definition closure_sink :: closure where
  "closure_sink = closure0\<lparr>options := options0\<lparr>opt_sendStats := True\<rparr>\<rparr>"

text \<open>An error-transform hook that returns an error object without a status.\<close>

definition closure_error_hook :: closure where
  "closure_error_hook =
     closure0\<lparr>config := config0\<lparr>cfg_transformResponseError :=
       Some (\<lambda>r args. Returns (Some \<lparr>pe_status = None, pe_code = Some ''UPSTREAM_DOWN'',
                                      pe_message = Some ''upstream is down'',
                                      pe_details = None\<rparr>))\<rparr>\<rparr>"

text \<open>
  The inbound header \<open>x\<close> is listed for passthrough by the action and the service-level
  proxy-header function returns \<open>x = 2\<close>.
\<close>

definition closure_x :: closure where
  "closure_x =
     closure0\<lparr>config := config0\<lparr>cfg_proxyHeaders := ProxyList [''x'']\<rparr>,
              options := options0\<lparr>opt_proxyHeaders :=
                ProxyFn (\<lambda>h. Returns [''x'' \<mapsto> Val ''2''])\<rparr>\<rparr>"

definition prepared_x :: prepared where
  "prepared_x = prepared0\<lparr>p_serviceProxy := [''x'' \<mapsto> Val ''2'']\<rparr>"

text \<open>As before, with an auth provider that returns \<open>x = 3\<close>.\<close>

definition closure_x_auth :: closure where
  "closure_x_auth =
     closure_x\<lparr>options := options closure_x
       \<lparr>opt_getAuthHeaders := Some (\<lambda>p. Returns (AuthHeaders [''x'' \<mapsto> Val ''3'']))\<rparr>\<rparr>"

definition prepared_x_auth :: prepared where
  "prepared_x_auth = prepared_x\<lparr>p_auth := AuthHeaders [''x'' \<mapsto> Val ''3'']\<rparr>"

text \<open>As before, with an auth provider that returns a promise of \<open>x = 3\<close>.\<close>

definition closure_x_promise :: closure where
  "closure_x_promise =
     closure_x\<lparr>options := options closure_x
       \<lparr>opt_getAuthHeaders := Some (\<lambda>p. Returns (AuthPromise [''x'' \<mapsto> Val ''3'']))\<rparr>\<rparr>"

definition prepared_x_promise :: prepared where
  "prepared_x_promise = prepared_x\<lparr>p_auth := AuthPromise [''x'' \<mapsto> Val ''3'']\<rparr>"

text \<open>A parameter producer that returns a header object of its own.\<close>

definition closure_override :: closure where
  "closure_override =
     closure0\<lparr>config := config0\<lparr>cfg_params := Some (\<lambda>args h. Returns (Some
        \<lparr>po_body = None, po_query = None,
         po_headers = Some [''x-flag'' \<mapsto> Undefined]\<rparr>))\<rparr>\<rparr>"

definition prepared_override :: prepared where
  "prepared_override =
     prepared0\<lparr>p_params := Some \<lparr>po_body = None, po_query = None,
                                  po_headers = Some [''x-flag'' \<mapsto> Undefined]\<rparr>\<rparr>"

text \<open>The request prepared for the inherited member \<^verbatim>\<open>toString\<close> as endpoint.\<close>

definition prepared_toString :: prepared where
  "prepared_toString =
     prepared0\<lparr>p_actionURL := ''function toString() { [native code] }/ping'',
               p_requestUrl := ''function toString() { [native code] }/ping''\<rparr>"

section \<open>Steps\<close>

lemma quiet_simps:
  "quiet []" "quiet (xs @ ys) = (quiet xs \<and> quiet ys)"
  "quiet (ev # evs) = (\<not> is_stats ev \<and> \<not> is_end ev \<and> \<not> is_request ev \<and> quiet evs)"
  by (auto simp: quiet_def)

lemma quietD:
  "quiet evs \<Longrightarrow> filter is_stats evs = []"
  "quiet evs \<Longrightarrow> filter is_end evs = []"
  "quiet evs \<Longrightarrow> filter is_request evs = []"
  by (simp_all add: quiet_def)

lemma quiet_andThen:
  assumes "quiet (fst m)" and "\<And>x. quiet (fst (f x))"
  shows "quiet (fst (andThen m f))"
  using assms by (simp add: andThen_def quiet_simps split: outcome.splits)

lemma quiet_steps:
  "quiet (fst (yield x))" "quiet (fst (quietly r))"
  by (simp_all add: yield_def quietly_def quiet_simps)

lemma andThen_returns:
  "snd m = Returns x \<Longrightarrow> andThen m f = (fst m @ fst (f x), snd (f x))"
  by (simp add: andThen_def)

lemma andThen_throws: "snd m = Throws \<Longrightarrow> andThen m f = (fst m, Throws)"
  by (simp add: andThen_def)

section \<open>Traces\<close>

text \<open>None of the calls before the transport call is a stats emission or closes the span.\<close>

lemma quiet_spanOpening: "quiet (spanOpening c)"
  by (simp add: spanOpening_def quiet_simps)

lemma quiet_validation: "quiet (fst (validation env c a))"
  by (simp add: validation_def andThen_def yield_def calling_def quiet_simps
      split: option.splits outcome.splits)

lemma quiet_resolution: "quiet (fst (resolution c a))"
  by (simp add: resolution_def endpointData_def andThen_def yield_def calling_def quiet_simps
      split: endpoint_selector.splits outcome.splits)

lemma quiet_actionPath: "quiet (fst (actionPath env c a))"
  by (simp add: actionPath_def andThen_def yield_def calling_def quietly_def quiet_simps
      split: path_spec.splits outcome.splits)

lemma quiet_proxyFunction: "quiet (fst (proxyFunction level p rh))"
  by (cases p) (simp_all add: yield_def calling_def quiet_simps)

lemma quiet_authHeaders: "quiet (fst (authHeaders c a))"
  by (simp add: authHeaders_def calling_def quietly_def quiet_simps split: option.splits)

lemma quiet_params: "quiet (fst (recovered (params c a h)))"
  by (simp add: recovered_def params_def quiet_simps split: option.splits outcome.splits)

lemma quiet_requestBody: "quiet (fst (recovered (requestBody env b)))"
  by (simp add: recovered_def requestBody_def quiet_simps
      split: option.splits outcome.splits body.splits)

lemma quiet_axiosClient: "quiet (fst (axiosClient env c a eac))"
  by (simp add: axiosClient_def Let_def yield_def calling_def quiet_simps)

lemma quiet_prepare: "quiet (fst (prepare env c a e))"
  unfolding prepare_def
  by (intro quiet_andThen quiet_actionPath quiet_proxyFunction quiet_authHeaders quiet_params
      quiet_requestBody quiet_axiosClient quiet_steps) (simp add: quiet_simps)

lemma quiet_transformResponseData:
  "filter is_stats (fst (transformResponseData c a resp)) = []"
  "filter is_end (fst (transformResponseData c a resp)) = []"
  by (simp_all add: transformResponseData_def split: option.splits outcome.splits)

lemma quiet_transformResponseError:
  "filter is_stats (fst (transformResponseError c a error)) = []"
  "filter is_end (fst (transformResponseError c a error)) = []"
  by (simp_all add: transformResponseError_def split: option.splits outcome.splits)

lemma quiet_parsedError:
  "filter is_stats (fst (parsedError env c a error)) = []"
  "filter is_end (fst (parsedError env c a error)) = []"
  by (simp_all add: parsedError_def quiet_transformResponseError
      split: option.splits outcome.splits)

lemma quiet_getRestResponseSize:
  "filter is_stats (fst (getRestResponseSize env d)) = []"
  "filter is_end (fst (getRestResponseSize env d)) = []"
  by (simp_all add: getRestResponseSize_def split: outcome.splits)

lemma statsCall_kind:
  "is_stats (statsCall env c a url hdrs dbg d status)"
  "\<not> is_end (statsCall env c a url hdrs dbg d status)"
  "via_sink (statsCall env c a url hdrs dbg d status) = opt_sendStats (options c)"
  by (simp_all add: statsCall_def requestData_def)

text \<open>The trace and the result of a dispatch by the way it ends.\<close>

lemma action_invalid:
  assumes "snd (validation env c a) = Returns (Some invalidParams)"
  shows "action env c a =
    (spanOpening c @ fst (validation env c a) @ [CtxLog ''Invalid params'', CtxEnd],
     Rejected (validationError invalidParams))"
  using assms by (simp add: action_def)

lemma action_unresolved:
  assumes "snd (validation env c a) = Returns None" and "snd (resolution c a) = Returns None"
  shows "action env c a =
    (spanOpening c @ fst (validation env c a) @ fst (resolution c a)
       @ [CtxLog (errorText c), CtxEnd],
     Rejected (endpointError c))"
  using assms by (simp add: action_def)

lemma action_resolved:
  assumes "snd (validation env c a) = Returns None"
    and "snd (resolution c a) = Returns (Some e)"
    and "snd (prepare env c a e) = Returns p"
    and "transportCall env c a p = Inr resp"
  shows "action env c a =
    (settled env c a e p @ fst (onResponse env c a p resp), snd (onResponse env c a p resp))"
  using assms by (simp add: action_def afterPreparation_def settled_def)

lemma action_failed:
  assumes "snd (validation env c a) = Returns None"
    and "snd (resolution c a) = Returns (Some e)"
    and "snd (prepare env c a e) = Returns p"
    and "transportCall env c a p = Inl error"
  shows "action env c a =
    (settled env c a e p @ fst (onError env c a p error), snd (onError env c a p error))"
  using assms by (simp add: action_def afterPreparation_def settled_def)

text \<open>
  A dispatch in which the validator, the endpoint selector or a step of the preparation
  throws: the promise rejects with the thrown value, and the trace has no stats emission, no
  closing of the span and no transport call.
\<close>

lemma action_thrown:
  assumes "snd (validation env c a) = Throws
    \<or> (snd (validation env c a) = Returns None \<and> snd (resolution c a) = Throws)
    \<or> (snd (validation env c a) = Returns None \<and> snd (resolution c a) = Returns (Some e)
         \<and> snd (prepare env c a e) = Throws)"
  shows "snd (action env c a) = Thrown" and "quiet (fst (action env c a))"
  using assms
  by (auto simp: action_def quiet_simps quiet_spanOpening quiet_validation quiet_resolution
      quiet_prepare)

lemma quiet_settled:
  "filter is_stats (settled env c a e p) = []" "filter is_end (settled env c a e p) = []"
  using quiet_spanOpening [of c] quiet_validation [of env c a] quiet_resolution [of c a]
    quiet_prepare [of env c a e]
  by (simp_all add: settled_def quiet_def)

lemma reported_append: "reported (xs @ ys) = reported xs @ reported ys"
proof (induction xs)
  case Nil
  show ?case by simp
next
  case (Cons ev xs)
  then show ?case by (cases ev) simp_all
qed

lemma reported_quiet: "filter is_stats xs = [] \<Longrightarrow> reported xs = []"
proof (induction xs)
  case Nil
  show ?case by simp
next
  case (Cons ev xs)
  then show ?case by (cases ev) (simp_all split: if_splits)
qed

lemma transmitted_append:
  "filter is_request xs = [] \<Longrightarrow> transmitted (xs @ ys) = transmitted ys"
proof (induction xs)
  case Nil
  show ?case by simp
next
  case (Cons ev xs)
  then show ?case by (cases ev) (simp_all split: if_splits)
qed

lemma instance_used_append:
  "filter is_request xs = [] \<Longrightarrow> instance_used (xs @ ys) = instance_used ys"
proof (induction xs)
  case Nil
  show ?case by simp
next
  case (Cons ev xs)
  then show ?case by (cases ev) (simp_all split: if_splits)
qed

lemma reported_statsCall:
  "reported [statsCall env c a url hdrs dbg d status] = [status]"
  by (simp add: statsCall_def requestData_def)

lemma reported_emitStats:
  "reported (emitStats env c a url hdrs dbg d status) = [status]"
  by (simp add: emitStats_def reported_append reported_quiet quiet_getRestResponseSize
      reported_statsCall del: reported.simps)

text \<open>The end of the trace after the transport call.\<close>

lemma onResponse_trace:
  "fst (onResponse env c a p resp) =
     (fst (transformResponseData c a resp)
        @ (if opt_sendStats (options c)
           then fst (getRestResponseSize env (Some (snd (transformResponseData c a resp))))
           else []))
     @ [statsCall env c a (p_actionURL p) (finalHeaders env c a p)
          (callDebugHeaders env c a p) (Some (snd (transformResponseData c a resp))) 200,
        CtxLog ''Request completed'', CtxEnd]"
  by (simp add: onResponse_def emitStats_def)

lemma onError_trace:
  "fst (onError env c a p error) =
     (fst (parsedError env c a error)
        @ (if opt_sendStats (options c)
           then fst (getRestResponseSize env
                  (case err_response error of None \<Rightarrow> None | Some r \<Rightarrow> rsp_data r))
           else []))
     @ [statsCall env c a (p_actionURL p) (finalHeaders env c a p)
          (callDebugHeaders env c a p)
          (case err_response error of None \<Rightarrow> None | Some r \<Rightarrow> rsp_data r)
          (responseStatus (snd (parsedError env c a error)) error),
        CtxLogError ''Request failed'', CtxEnd]"
  by (simp add: onError_def emitStats_def)

lemma after_call_shape:
  assumes "snd (validation env c a) = Returns None"
    and "snd (resolution c a) = Returns (Some e)"
    and "snd (prepare env c a e) = Returns p"
  shows "\<exists>pre s l. fst (action env c a) = pre @ [s, l, CtxEnd]
           \<and> is_stats s \<and> via_sink s = opt_sendStats (options c)
           \<and> filter is_stats (pre @ [l]) = [] \<and> filter is_end (pre @ [l]) = []"
proof (cases "transportCall env c a p")
  case (Inr resp)
  let ?pre = "settled env c a e p @ fst (transformResponseData c a resp)
        @ (if opt_sendStats (options c)
           then fst (getRestResponseSize env (Some (snd (transformResponseData c a resp))))
           else [])"
  let ?s = "statsCall env c a (p_actionURL p) (finalHeaders env c a p)
          (callDebugHeaders env c a p) (Some (snd (transformResponseData c a resp))) 200"
  have "fst (action env c a) = ?pre @ [?s, CtxLog ''Request completed'', CtxEnd]"
    using assms Inr by (simp add: action_resolved onResponse_trace)
  moreover have "filter is_stats (?pre @ [CtxLog ''Request completed'']) = []"
    by (simp add: quiet_settled quiet_transformResponseData quiet_getRestResponseSize)
  moreover have "filter is_end (?pre @ [CtxLog ''Request completed'']) = []"
    by (simp add: quiet_settled quiet_transformResponseData quiet_getRestResponseSize)
  ultimately show ?thesis
    using statsCall_kind(1,3) by blast
next
  case (Inl error)
  let ?d = "case err_response error of None \<Rightarrow> None | Some r \<Rightarrow> rsp_data r"
  let ?pre = "settled env c a e p @ fst (parsedError env c a error)
        @ (if opt_sendStats (options c) then fst (getRestResponseSize env ?d) else [])"
  let ?s = "statsCall env c a (p_actionURL p) (finalHeaders env c a p)
          (callDebugHeaders env c a p) ?d (responseStatus (snd (parsedError env c a error)) error)"
  have "fst (action env c a) = ?pre @ [?s, CtxLogError ''Request failed'', CtxEnd]"
    using assms Inl by (simp add: action_failed onError_trace)
  moreover have "filter is_stats (?pre @ [CtxLogError ''Request failed'']) = []"
    by (simp add: quiet_settled quiet_parsedError quiet_getRestResponseSize)
  moreover have "filter is_end (?pre @ [CtxLogError ''Request failed'']) = []"
    by (simp add: quiet_settled quiet_parsedError quiet_getRestResponseSize)
  ultimately show ?thesis
    using statsCall_kind(1,3) by blast
qed

lemma early_end_shape:
  assumes "(\<exists>invalidParams. snd (validation env c a) = Returns (Some invalidParams))
    \<or> (snd (validation env c a) = Returns None \<and> snd (resolution c a) = Returns None)"
  shows "emissions (fst (action env c a)) = 0 \<and> closings (fst (action env c a)) = 1
     \<and> last (fst (action env c a)) = CtxEnd"
  using assms quiet_spanOpening [of c] quiet_validation [of env c a] quiet_resolution [of c a]
  by (auto simp: action_invalid action_unresolved emissions_def closings_def quiet_def)

lemmas example_defs = env0_def config0_def options0_def closure0_def call0_def backend_def
  prepared0_def closure_schema_def call_invalid_def env_lenient_def closure_lost_def
  closure_schema_lost_def closure_toString_def env_down_def down_def pong_def bare_def
  env_bare_def closure_broken_hook_def closure_sink_def closure_error_hook_def closure_x_def
  prepared_x_def closure_x_auth_def prepared_x_auth_def closure_x_promise_def
  prepared_x_promise_def closure_override_def prepared_override_def prepared_toString_def

lemmas step_defs = andThen_def yield_def quietly_def calling_def recovered_def

lemmas entry_defs = validation_def validationSchema_def json_option_truthy_def resolution_def
  endpointData_def lookup_def objectPrototype_def step_defs

lemmas prepare_defs = prepare_def actionPath_def pathArgs_def authHeaders_def authParams_def
  params_def
  requestUrl_def preparedQuery_def getConfigSerializerFunction_def requestBody_def
  axiosClient_def object_truthy_def number_truthy_def getAxiosClient_def
  customActionTimeout_def customActionAxiosConfig_def timeout_def nullish_def query_of_def
  body_of_def json_option_truthy_def Let_def step_defs

text \<open>What a prepared request records.\<close>

lemma prepare_returns:
  assumes "snd (prepare env c a e) = Returns p"
  shows "snd (proxyFunction ''service'' (opt_proxyHeaders (options c)) (ac_headers a))
           = Returns (p_serviceProxy p)"
    and "snd (proxyFunction ''action'' (cfg_proxyHeaders (config c)) (ac_headers a))
           = Returns (p_actionProxy p)"
    and "snd (authHeaders c a) = Returns (p_auth p)"
    and "p_params p = snd (params c a (composedHeaders env c a p))"
    and "p_axiosClient p =
           PerCall (getAxiosClient (customActionTimeout c a (endpointAxiosConfig e))
             (cfg_retries (config c)) (Some (customActionAxiosConfig c (endpointAxiosConfig e))))"
  using assms
  by (auto simp: prepare_def step_defs composedHeaders_def axiosClient_def object_truthy_def
      Let_def split: outcome.splits if_splits)

text \<open>The first transport call of a dispatch that prepares its request.\<close>

lemma quiet_request_settled_prefix:
  "filter is_request (spanOpening c @ fst (validation env c a) @ fst (resolution c a)
      @ fst (prepare env c a e)) = []"
  using quiet_spanOpening [of c] quiet_validation [of env c a] quiet_resolution [of c a]
    quiet_prepare [of env c a e]
  by (simp add: quiet_def)

lemma first_request_settled:
  "transmitted (settled env c a e p @ rest) = Some (rc_headers (callRequestConfig env c a p))"
  "instance_used (settled env c a e p @ rest) = Some (p_axiosClient p)"
  using transmitted_append [OF quiet_request_settled_prefix]
    instance_used_append [OF quiet_request_settled_prefix]
  by (simp_all add: settled_def)

lemma first_request_action:
  assumes "snd (validation env c a) = Returns None"
    and "snd (resolution c a) = Returns (Some e)"
    and "snd (prepare env c a e) = Returns p"
  shows "transmitted (fst (action env c a)) = Some (rc_headers (callRequestConfig env c a p))"
    and "instance_used (fst (action env c a)) = Some (p_axiosClient p)"
  using assms
  by (cases "transportCall env c a p";
      simp add: action_resolved action_failed first_request_settled)+

text \<open>A dispatch whose transport call throws.\<close>

lemma failed_dispatch:
  assumes "snd (validation env c a) = Returns None"
    and "snd (resolution c a) = Returns (Some e)"
    and "snd (prepare env c a e) = Returns p"
    and "transportCall env c a p = Inl error"
  shows "reported (fst (action env c a))
      = [responseStatus (snd (parsedError env c a error)) error]"
    and "snd (action env c a) =
      Rejected \<lparr>rj_error = spreadError (snd (parsedError env c a error)) (ac_requestId a),
                rj_debugHeaders = Some (callDebugHeaders env c a p)\<rparr>"
  using assms
  by (simp_all add: action_failed onError_def reported_append reported_quiet quiet_settled
      quiet_parsedError reported_emitStats)

lemma spreadError_status: "ge_status (spreadError p rid) = parsedStatus p"
  by (simp add: spreadError_def parsedStatus_def split: option.splits)

text \<open>The example dispatches, evaluated.\<close>

lemma ex0:
  "snd (validation env0 closure0 call0) = Returns None"
  "snd (resolution closure0 call0) = Returns (Some backend)"
  "snd (prepare env0 closure0 call0 backend) = Returns prepared0"
  "transportCall env0 closure0 call0 prepared0 = Inr pong"
  "snd (validation env0 closure_sink call0) = Returns None"
  "snd (resolution closure_sink call0) = Returns (Some backend)"
  "snd (prepare env0 closure_sink call0 backend) = Returns prepared0"
  "transportCall env0 closure_sink call0 prepared0 = Inr pong"
  "snd (validation env0 closure_broken_hook call0) = Returns None"
  "snd (resolution closure_broken_hook call0) = Returns (Some backend)"
  "snd (prepare env0 closure_broken_hook call0 backend) = Returns prepared0"
  "transportCall env0 closure_broken_hook call0 prepared0 = Inr pong"
  by (simp_all add: example_defs entry_defs prepare_defs transportCall_def)

lemma ex_early:
  "snd (validation env0 closure_schema call_invalid) = Returns (Some (JStr ''args: required''))"
  "snd (validation env0 closure_schema_lost call_invalid)
     = Returns (Some (JStr ''args: required''))"
  "snd (resolution closure_schema_lost call_invalid) = Returns None"
  "snd (validation env0 closure_lost call0) = Returns None"
  "snd (resolution closure_lost call0) = Returns None"
  by (simp_all add: example_defs entry_defs)

lemma ex_down:
  "snd (validation env_down closure0 call0) = Returns None"
  "snd (prepare env_down closure0 call0 backend) = Returns prepared0"
  "transportCall env_down closure0 call0 prepared0 = Inl down"
  "snd (parsedError env_down closure0 call0 down) =
     Some \<lparr>pe_status = Some 503, pe_code = Some ''UPSTREAM'',
           pe_message = Some ''Request failed'', pe_details = None\<rparr>"
  "snd (validation env_down closure_error_hook call0) = Returns None"
  "snd (resolution closure_error_hook call0) = Returns (Some backend)"
  "snd (prepare env_down closure_error_hook call0 backend) = Returns prepared0"
  "transportCall env_down closure_error_hook call0 prepared0 = Inl down"
  "snd (parsedError env_down closure_error_hook call0 down) =
     Some \<lparr>pe_status = None, pe_code = Some ''UPSTREAM_DOWN'',
           pe_message = Some ''upstream is down'', pe_details = None\<rparr>"
  "snd (validation env_bare closure0 call0) = Returns None"
  "snd (prepare env_bare closure0 call0 backend) = Returns prepared0"
  "transportCall env_bare closure0 call0 prepared0 = Inl bare"
  "snd (parsedError env_bare closure0 call0 bare) = None"
  by (simp_all add: example_defs entry_defs prepare_defs transportCall_def parsedError_def
      transformResponseError_def)

lemma ex_x:
  "snd (validation env0 closure_x call0) = Returns None"
  "snd (resolution closure_x call0) = Returns (Some backend)"
  "snd (prepare env0 closure_x call0 backend) = Returns prepared_x"
  "snd (validation env0 closure_x_auth call0) = Returns None"
  "snd (resolution closure_x_auth call0) = Returns (Some backend)"
  "snd (prepare env0 closure_x_auth call0 backend) = Returns prepared_x_auth"
  "snd (validation env0 closure_x_promise call0) = Returns None"
  "snd (resolution closure_x_promise call0) = Returns (Some backend)"
  "snd (prepare env0 closure_x_promise call0 backend) = Returns prepared_x_promise"
  "snd (validation env0 closure_override call0) = Returns None"
  "snd (resolution closure_override call0) = Returns (Some backend)"
  "snd (prepare env0 closure_override call0 backend) = Returns prepared_override"
  by (simp_all add: example_defs entry_defs prepare_defs)

text \<open>
  Null arguments under an action-level schema and a validator that accepts them: the helper
  that encodes the path arguments throws, the promise rejects with what it threw, and the
  span stays open.
\<close>

lemma ex_thrown:
  "snd (validation env_lenient closure_schema call_invalid) = Returns None"
  "snd (resolution closure_schema call_invalid) = Returns (Some backend)"
  "snd (prepare env_lenient closure_schema call_invalid backend) = Throws"
  "action env_lenient closure_schema call_invalid =
     (spanOpening closure_schema @ [CallValidateArgs], Thrown)"
  by (simp_all add: action_def example_defs entry_defs prepare_defs)

section \<open>Header composition\<close>

lemma passthrough_keeps:
  "getProp h x \<noteq> Undefined \<Longrightarrow> passthrough rh names h x = h x"
proof (induction names arbitrary: h)
  case Nil
  show ?case by simp
next
  case (Cons n names)
  let ?h' = "if getProp h n = Undefined then h(n \<mapsto> getProp rh n) else h"
  from Cons.prems have same: "?h' x = h x" by auto
  with Cons.prems have "getProp ?h' x \<noteq> Undefined" by (simp add: getProp_def)
  from Cons.IH [OF this] same show ?case by simp
qed

lemma withRequestId_other: "x \<noteq> ''x-request-id'' \<Longrightarrow> withRequestId a h x = h x"
  by (simp add: withRequestId_def split: option.splits)

lemma withIdempotency_other: "x \<noteq> ''idempotency-key'' \<Longrightarrow> withIdempotency env c a h x = h x"
  by (simp add: withIdempotency_def)

lemma auth_entry_wins:
  assumes "ah x = Some (Val v)"
  shows "actionHeaders env c a hst svc act (AuthHeaders ah) x = Some (Val v)"
  using assms by (simp add: actionHeaders_def Let_def omitUndefined_def assign_def)

lemma service_entry_wins:
  assumes "svc x = Some (Val v)" and "act x = None"
  shows "headersAfterPassthrough env c a hst svc act x = Some (Val v)"
proof -
  let ?h3 = "assign (assign (seedHeaders env hst (lang env a)) svc) act"
  have h3: "?h3 x = Some (Val v)"
    using assms by (simp add: assign_def map_add_def)
  then have "getProp ?h3 x \<noteq> Undefined" by (simp add: getProp_def)
  from passthrough_keeps [OF this] h3 show ?thesis
    by (simp add: headersAfterPassthrough_def Let_def)
qed

lemma service_entry_sent:
  assumes "svc x = Some (Val v)" and "act x = None"
    and "own_properties auth x = None"
    and "x \<noteq> ''x-request-id''" and "x \<noteq> ''idempotency-key''"
  shows "actionHeaders env c a hst svc act auth x = Some (Val v)"
  using service_entry_wins [where svc = svc and act = act and x = x, OF assms(1,2)]
    assms(3,4,5)
  by (simp add: actionHeaders_def Let_def omitUndefined_def assign_def map_add_def
      withRequestId_other withIdempotency_other)

lemma not_overridden:
  "\<not> headersOverridden p \<Longrightarrow> finalHeaders env c a p = composedHeaders env c a p"
  by (simp add: headersOverridden_def finalHeaders_def headers_of_def split: option.splits)

lemma composed_pruned: "composedHeaders env c a p x \<noteq> Some Undefined"
  by (simp add: composedHeaders_def actionHeaders_def Let_def omitUndefined_def)

lemma sent_entry:
  "rc_headers (callRequestConfig env c a p) x =
     (case finalHeaders env c a p x of
        Some v \<Rightarrow> Some v
      | None \<Rightarrow> getMetadata env x)"
  by (simp add: callRequestConfig_def requestConfig_def assign_def map_add_def)

text \<open>
  Without a header object from the parameter producer, an undefined entry of the transmitted
  headers can only come from the tracing metadata.
\<close>

lemma pruned_without_override:
  assumes "snd (validation env c a) = Returns None"
    and "snd (resolution c a) = Returns (Some e)"
    and "snd (prepare env c a e) = Returns p"
    and "\<not> headersOverridden p"
  shows "sent (fst (action env c a)) x = Some Undefined \<longrightarrow>
         getMetadata env x = Some Undefined \<and> composedHeaders env c a p x = None"
  using first_request_action(1) [OF assms(1,2,3)] not_overridden [OF assms(4)]
    composed_pruned [of env c a p x]
  by (auto simp: sent_def sent_entry split: option.splits)

section \<open>Transport instance\<close>

lemma per_call_instance_always:
  "fst (axiosClient env c a eac) =
     [CallGetAxiosClient (getAxiosClient (customActionTimeout c a eac) (cfg_retries (config c))
          (Some (customActionAxiosConfig c eac)))]"
  "snd (axiosClient env c a eac) \<noteq> Returns (Shared cl)"
  by (simp_all add: axiosClient_def object_truthy_def Let_def calling_def)

lemma timeout_precedence:
  "ac_timeout a = Some t \<Longrightarrow> customActionTimeout c a eac = Some t"
  "ac_timeout a = None \<Longrightarrow> cfg_timeout (config c) = Some t
     \<Longrightarrow> customActionTimeout c a eac = Some t"
  "ac_timeout a = None \<Longrightarrow> cfg_timeout (config c) = None \<Longrightarrow> eac ''timeout'' = Some t
     \<Longrightarrow> customActionTimeout c a eac = Some t"
  "ac_timeout a = None \<Longrightarrow> cfg_timeout (config c) = None \<Longrightarrow> eac ''timeout'' = None
     \<Longrightarrow> customActionTimeout c a eac = timeout c"
  by (simp_all add: customActionTimeout_def nullish_def)

section \<open>Endpoint resolution\<close>

text \<open>When the endpoint cannot be resolved, by the form of the selector.\<close>

lemma lookup_absent:
  "table = None \<Longrightarrow> lookup table key = None"
  "table = Some t \<Longrightarrow> t key = None \<Longrightarrow> key \<notin> set objectPrototype \<Longrightarrow> lookup table key = None"
  by (simp_all add: lookup_def)

lemma unresolvable_cases:
  "cfg_endpoint (config c) = EndpointFn f \<Longrightarrow> f (endpoints c) (ac_args a) = Returns None
     \<Longrightarrow> snd (resolution c a) = Returns None"
  "cfg_endpoint (config c) = EndpointKey k \<Longrightarrow> k \<noteq> [] \<Longrightarrow> lookup (endpoints c) k = None
     \<Longrightarrow> snd (resolution c a) = Returns None"
  "cfg_endpoint (config c) = EndpointUnset \<Longrightarrow> lookup (endpoints c) ''endpoint'' = None
     \<Longrightarrow> snd (resolution c a) = Returns None"
  by (simp_all add: resolution_def endpointData_def step_defs)

text \<open>
  A named key without entry in the table that is the name of an inherited member resolves
  to that member, and the dispatch goes on to the transport call.
\<close>

lemma inherited_key_resolves:
  assumes "cfg_endpoint (config c) = EndpointKey k" and "endpoints c = Some t"
    and "t k = None" and "k \<in> set objectPrototype"
  shows "snd (resolution c a) = Returns (Some (Inherited k))"
proof -
  from assms(4) have "k \<noteq> []" by (auto simp: objectPrototype_def)
  with assms show ?thesis
    by (simp add: resolution_def endpointData_def lookup_def step_defs)
qed

section \<open>The claims\<close>

subsection \<open>Telemetry\<close>

text \<open>
  Claim C1, as amended. A dispatch that reaches the transport call (it passes validation,
  resolves its endpoint and prepares the request) makes exactly one stats emission, through
  the custom sink when one is configured and through the stats method of the tracing context
  otherwise, whether the transport call resolves or throws; the span is closed once, as the
  last call, after that emission. A dispatch that ends in a validation failure or an
  endpoint-resolution failure makes no stats emission; it closes the span once, as its last
  call.
\<close>

theorem stats_once_when_transport_called:
  "(snd (validation env c a) = Returns None \<and> snd (resolution c a) = Returns (Some e)
      \<and> snd (prepare env c a e) = Returns p \<longrightarrow>
      emissions (fst (action env c a)) = 1 \<and> closings (fst (action env c a)) = 1
      \<and> (\<exists>pre s l. fst (action env c a) = pre @ [s, l, CtxEnd]
            \<and> is_stats s \<and> via_sink s = opt_sendStats (options c)
            \<and> emissions (pre @ [l]) = 0 \<and> closings (pre @ [l]) = 0))
   \<and> (snd (validation env c a) = Returns (Some invalidParams)
       \<or> (snd (validation env c a) = Returns None \<and> snd (resolution c a) = Returns None) \<longrightarrow>
      emissions (fst (action env c a)) = 0 \<and> closings (fst (action env c a)) = 1
      \<and> last (fst (action env c a)) = CtxEnd)"
proof (intro conjI impI)
  assume h: "snd (validation env c a) = Returns None \<and> snd (resolution c a) = Returns (Some e)
      \<and> snd (prepare env c a e) = Returns p"
  then have "\<exists>pre s l. fst (action env c a) = pre @ [s, l, CtxEnd]
           \<and> is_stats s \<and> via_sink s = opt_sendStats (options c)
           \<and> filter is_stats (pre @ [l]) = [] \<and> filter is_end (pre @ [l]) = []"
    using after_call_shape by blast
  then obtain pre s l where tr: "fst (action env c a) = pre @ [s, l, CtxEnd]"
    and s: "is_stats s" "via_sink s = opt_sendStats (options c)"
    and q: "filter is_stats (pre @ [l]) = []" "filter is_end (pre @ [l]) = []"
    by blast
  from s(1) have ns: "\<not> is_end s" by (cases s) simp_all
  show "emissions (fst (action env c a)) = 1"
    using tr s(1) q(1) by (simp add: emissions_def split: if_splits)
  show "closings (fst (action env c a)) = 1"
    using tr ns q(2) by (simp add: closings_def split: if_splits)
  show "\<exists>pre s l. fst (action env c a) = pre @ [s, l, CtxEnd]
            \<and> is_stats s \<and> via_sink s = opt_sendStats (options c)
            \<and> emissions (pre @ [l]) = 0 \<and> closings (pre @ [l]) = 0"
    using tr s q unfolding emissions_def closings_def by (metis list.size(3))
next
  assume "snd (validation env c a) = Returns (Some invalidParams)
       \<or> (snd (validation env c a) = Returns None \<and> snd (resolution c a) = Returns None)"
  then have "emissions (fst (action env c a)) = 0 \<and> closings (fst (action env c a)) = 1
     \<and> last (fst (action env c a)) = CtxEnd"
    using early_end_shape by blast
  then show "emissions (fst (action env c a)) = 0" "closings (fst (action env c a)) = 1"
    "last (fst (action env c a)) = CtxEnd" by simp_all
qed

theorem C1_witness:
  "emissions (fst (action env0 closure0 call0)) = 1
   \<and> closings (fst (action env0 closure0 call0)) = 1
   \<and> emissions (fst (action env0 closure_sink call0)) = 1
   \<and> emissions (fst (action env_down closure0 call0)) = 1
   \<and> closings (fst (action env_down closure0 call0)) = 1
   \<and> emissions (fst (action env0 closure_lost call0)) = 0
   \<and> last (fst (action env0 closure_lost call0)) = CtxEnd"
  using stats_once_when_transport_called [of env0 closure0 call0 backend prepared0]
    stats_once_when_transport_called [of env0 closure_sink call0 backend prepared0]
    stats_once_when_transport_called [of env_down closure0 call0 backend prepared0]
    stats_once_when_transport_called [of env0 closure_lost call0]
  by (simp add: ex0 ex_down ex_early)

theorem C1_counterexample:
  "snd (action env0 closure_schema call_invalid)
     = Rejected (validationError (JStr ''args: required''))
   \<and> emissions (fst (action env0 closure_schema call_invalid)) = 0"
  using action_invalid [OF ex_early(1)] quiet_spanOpening [of closure_schema]
    quiet_validation [of env0 closure_schema call_invalid]
  by (simp add: emissions_def quiet_def)

subsection \<open>Header precedence\<close>

text \<open>
  Claim C2, as amended. For every dispatch that reaches the transport call, whose auth-header
  provider returns its header object synchronously and whose parameter producer returns no
  header object of its own: a header the auth provider sets to a value is transmitted with
  that value, whatever the seed headers, the service- or action-level proxy-header functions
  or the passthrough copy set for the same name; and a header the service-level proxy-header
  function sets to a value is transmitted with that value, whatever the inbound header of
  that name, when neither the action-level function nor the auth provider sets it and it is
  not the request-id or idempotency-key header. With inbound \<open>x = 1\<close>, a service function
  returning \<open>x = 2\<close> and an auth provider returning \<open>x = 3\<close>, the transmitted \<open>x\<close> is 3, and it
  is 2 with no auth override.
\<close>

theorem header_precedence:
  assumes "snd (validation env c a) = Returns None"
    and "snd (resolution c a) = Returns (Some e)"
    and "snd (prepare env c a e) = Returns p"
    and "\<not> headersOverridden p"
    and "snd (authHeaders c a) = Returns (AuthHeaders ah)"
  shows "(ah x = Some (Val v) \<longrightarrow> sent (fst (action env c a)) x = Some (Val v))
    \<and> (opt_proxyHeaders (options c) = ProxyFn f \<and> f (ac_headers a) = Returns svc
        \<and> svc x = Some (Val v)
        \<and> snd (proxyFunction ''action'' (cfg_proxyHeaders (config c)) (ac_headers a))
            = Returns act
        \<and> act x = None
        \<and> ah x = None \<and> x \<noteq> ''x-request-id'' \<and> x \<noteq> ''idempotency-key''
       \<longrightarrow> sent (fst (action env c a)) x = Some (Val v))"
proof -
  have s: "sent (fst (action env c a)) x =
      (case composedHeaders env c a p x of Some v \<Rightarrow> Some v | None \<Rightarrow> getMetadata env x)"
    using first_request_action(1) [OF assms(1,2,3)] not_overridden [OF assms(4)]
    by (simp add: sent_def sent_entry)
  have auth: "p_auth p = AuthHeaders ah"
    using prepare_returns(3) [OF assms(3)] assms(5) by simp
  show ?thesis
  proof (intro conjI impI)
    assume "ah x = Some (Val v)"
    from auth_entry_wins [where ah = ah and x = x, OF this] s auth
    show "sent (fst (action env c a)) x = Some (Val v)"
      by (simp add: composedHeaders_def)
  next
    assume h: "opt_proxyHeaders (options c) = ProxyFn f \<and> f (ac_headers a) = Returns svc
        \<and> svc x = Some (Val v)
        \<and> snd (proxyFunction ''action'' (cfg_proxyHeaders (config c)) (ac_headers a))
            = Returns act
        \<and> act x = None
        \<and> ah x = None \<and> x \<noteq> ''x-request-id'' \<and> x \<noteq> ''idempotency-key''"
    then have "p_serviceProxy p = svc" and "p_actionProxy p = act"
      using prepare_returns(1,2) [OF assms(3)] by (simp_all add: calling_def)
    moreover have "own_properties (p_auth p) x = None" using auth h by simp
    ultimately have "composedHeaders env c a p x = Some (Val v)"
      using h service_entry_sent unfolding composedHeaders_def by blast
    with s show "sent (fst (action env c a)) x = Some (Val v)" by simp
  qed
qed

theorem C2_witness:
  "ac_headers call0 ''x'' = Some (Val ''1'')
   \<and> sent (fst (action env0 closure_x_auth call0)) ''x'' = Some (Val ''3'')
   \<and> sent (fst (action env0 closure_x call0)) ''x'' = Some (Val ''2'')"
proof -
  have n: "\<not> headersOverridden prepared_x_auth" "\<not> headersOverridden prepared_x"
    by (simp_all add: headersOverridden_def example_defs)
  have a3: "snd (authHeaders closure_x_auth call0) = Returns (AuthHeaders [''x'' \<mapsto> Val ''3''])"
    and a2: "snd (authHeaders closure_x call0) = Returns (AuthHeaders Map.empty)"
    by (simp_all add: authHeaders_def nullish_def calling_def example_defs)
  have "sent (fst (action env0 closure_x_auth call0)) ''x'' = Some (Val ''3'')"
    using header_precedence [where x = "''x''" and v = "''3''", OF ex_x(4,5,6) n(1) a3]
    by simp
  moreover have "sent (fst (action env0 closure_x call0)) ''x'' = Some (Val ''2'')"
  proof -
    have "opt_proxyHeaders (options closure_x) = ProxyFn (\<lambda>h. Returns [''x'' \<mapsto> Val ''2''])"
      and "snd (proxyFunction ''action'' (cfg_proxyHeaders (config closure_x))
             (ac_headers call0)) = Returns Map.empty"
      by (simp_all add: yield_def example_defs)
    with header_precedence [where x = "''x''" and v = "''2''"
        and f = "\<lambda>h. Returns [''x'' \<mapsto> Val ''2'']" and svc = "[''x'' \<mapsto> Val ''2'']"
        and act = Map.empty, OF ex_x(1,2,3) n(2) a2]
    show ?thesis by simp
  qed
  moreover have "ac_headers call0 ''x'' = Some (Val ''1'')" by (simp add: call0_def)
  ultimately show ?thesis by simp
qed

theorem C2_counterexample:
  "snd (authHeaders closure_x_promise call0) = Returns (AuthPromise [''x'' \<mapsto> Val ''3''])
   \<and> sent (fst (action env0 closure_x_promise call0)) ''x'' = Some (Val ''2'')"
proof -
  have "snd (authHeaders closure_x_promise call0) = Returns (AuthPromise [''x'' \<mapsto> Val ''3''])"
    by (simp add: authHeaders_def nullish_def calling_def example_defs)
  moreover have "\<not> headersOverridden prepared_x_promise"
    by (simp add: headersOverridden_def example_defs)
  moreover have "composedHeaders env0 closure_x_promise call0 prepared_x_promise ''x''
      = Some (Val ''2'')"
    unfolding composedHeaders_def
    by (rule service_entry_sent) (simp_all add: example_defs)
  ultimately show ?thesis
    using first_request_action(1) [OF ex_x(7,8,9)] not_overridden [of prepared_x_promise]
    by (simp add: sent_def sent_entry)
qed

subsection \<open>Transport selection\<close>

text \<open>
  Claim C3, evaluated at a dispatch with no per-call timeout and an endpoint given as a bare
  URL. The claim says the shared default instance carries the request; the code sends it
  through an instance built during the call (with the timeout and retry count of the default
  one), because the guard of line 251 tests an object, which is truthy even when empty.
\<close>

theorem default_instance_not_reused:
  "ac_timeout call0 = None
   \<and> endpointAxiosConfig backend = Map.empty
   \<and> instance_used (fst (action env0 closure0 call0))
       = Some (PerCall \<lparr>cl_timeout = Some 5000, cl_retries = None,
                        cl_axiosConfig = Some Map.empty\<rparr>)
   \<and> instance_used (fst (action env0 closure0 call0)) \<noteq> Some (Shared (defaultAxiosClient closure0))
   \<and> defaultAxiosClient closure0
       = \<lparr>cl_timeout = Some 5000, cl_retries = None, cl_axiosConfig = None\<rparr>"
proof -
  have "p_axiosClient prepared0
      = PerCall \<lparr>cl_timeout = Some 5000, cl_retries = None, cl_axiosConfig = Some Map.empty\<rparr>"
    by (simp add: prepared0_def)
  with first_request_action(2) [OF ex0(1,2,3)] show ?thesis
    by (simp add: defaultAxiosClient_def getAxiosClient_def timeout_def nullish_def
        closure0_def config0_def options0_def call0_def backend_def)
qed

subsection \<open>Rejections\<close>

text \<open>
  Claim C4, as amended. Every dispatch that fails (validation failure, endpoint-resolution
  failure, or transport failure) rejects with an object holding an error. On a
  validation failure the error carries status 400, code \<^verbatim>\<open>INVALID_PARAMS\<close>, a message and
  details, and the object carries the (empty) debug headers. On an endpoint-resolution
  failure the error carries status 400, code \<^verbatim>\<open>ENDPOINT_NOT_FOUND\<close> and a message, and no
  details. On a transport failure the error carries the call's request id and the status,
  code, message and details of the normalized error as far as it has them (none when no
  normalized error was produced), and the object carries the debug headers.
\<close>

theorem rejection_shapes:
  "(snd (validation env c a) = Returns (Some invalidParams) \<longrightarrow>
      (\<exists>rj. snd (action env c a) = Rejected rj
         \<and> ge_status (rj_error rj) = Some 400
         \<and> ge_code (rj_error rj) = Some ''INVALID_PARAMS''
         \<and> ge_message (rj_error rj) = Some ''Validation failed''
         \<and> ge_details (rj_error rj) =
             Some (JObj [(''title'', JStr ''Invalid params''), (''description'', invalidParams)])
         \<and> rj_debugHeaders rj = Some Map.empty))
   \<and> (snd (validation env c a) = Returns None \<and> snd (resolution c a) = Returns None \<longrightarrow>
      (\<exists>rj. snd (action env c a) = Rejected rj
         \<and> ge_status (rj_error rj) = Some 400
         \<and> ge_code (rj_error rj) = Some ''ENDPOINT_NOT_FOUND''
         \<and> ge_message (rj_error rj) = Some (errorText c)
         \<and> ge_details (rj_error rj) = None))
   \<and> (snd (validation env c a) = Returns None \<and> snd (resolution c a) = Returns (Some e)
        \<and> snd (prepare env c a e) = Returns p \<and> transportCall env c a p = Inl error \<longrightarrow>
      (\<exists>rj. snd (action env c a) = Rejected rj
         \<and> ge_requestId (rj_error rj) = ac_requestId a
         \<and> rj_debugHeaders rj = Some (callDebugHeaders env c a p)
         \<and> (case snd (parsedError env c a error) of
               Some pe \<Rightarrow>
                 ge_status (rj_error rj) = pe_status pe \<and> ge_code (rj_error rj) = pe_code pe
                 \<and> ge_message (rj_error rj) = pe_message pe
                 \<and> ge_details (rj_error rj) = pe_details pe
             | None \<Rightarrow>
                 ge_status (rj_error rj) = None \<and> ge_code (rj_error rj) = None
                 \<and> ge_message (rj_error rj) = None \<and> ge_details (rj_error rj) = None)))"
  by (simp add: action_invalid action_unresolved action_failed validationError_def
      endpointError_def onError_def spreadError_def split: option.splits)

theorem C4_witness:
  "(\<exists>rj. snd (action env0 closure_schema call_invalid) = Rejected rj
       \<and> ge_status (rj_error rj) = Some 400
       \<and> ge_code (rj_error rj) = Some ''INVALID_PARAMS'')
   \<and> (\<exists>rj. snd (action env0 closure_lost call0) = Rejected rj
       \<and> ge_code (rj_error rj) = Some ''ENDPOINT_NOT_FOUND'')
   \<and> (\<exists>rj. snd (action env_down closure0 call0) = Rejected rj
       \<and> ge_requestId (rj_error rj) = Some ''req-1''
       \<and> ge_status (rj_error rj) = Some 503)"
proof -
  have rid: "ac_requestId call0 = Some ''req-1''" by (simp add: call0_def)
  have "\<exists>rj. snd (action env0 closure_schema call_invalid) = Rejected rj
       \<and> ge_status (rj_error rj) = Some 400
       \<and> ge_code (rj_error rj) = Some ''INVALID_PARAMS''"
    using rejection_shapes [of env0 closure_schema call_invalid "JStr ''args: required''"]
      ex_early(1) by blast
  moreover have "\<exists>rj. snd (action env0 closure_lost call0) = Rejected rj
       \<and> ge_code (rj_error rj) = Some ''ENDPOINT_NOT_FOUND''"
    using rejection_shapes [of env0 closure_lost call0] ex_early(4,5) by blast
  moreover have "\<exists>rj. snd (action env_down closure0 call0) = Rejected rj
       \<and> ge_requestId (rj_error rj) = Some ''req-1''
       \<and> ge_status (rj_error rj) = Some 503"
    using rejection_shapes [of env_down closure0 call0 _ backend prepared0 down]
      ex0(2) ex_down(1,2,3,4) rid by auto
  ultimately show ?thesis by blast
qed

theorem C4_counterexample:
  "ac_requestId call0 = Some ''req-1''
   \<and> snd (action env0 closure_lost call0) =
       Rejected \<lparr>rj_error =
           \<lparr>ge_status = Some 400, ge_message = Some (errorText closure_lost),
            ge_code = Some ''ENDPOINT_NOT_FOUND'', ge_details = None, ge_requestId = None\<rparr>,
         rj_debugHeaders = None\<rparr>"
proof -
  have "ac_requestId call0 = Some ''req-1''" by (simp add: call0_def)
  then show ?thesis
    using action_unresolved [OF ex_early(4,5)] by (simp add: endpointError_def)
qed

text \<open>
  Claim C5, as amended. For every transport failure the resolved status is the normalized
  error's status when that is a number other than 0, else the raw thrown error's status when
  it carries one, else 500; this resolved status is the status of the one stats emission.
  The status in the rejection's error object is the normalized error's own status, absent
  when the normalized error has none.
\<close>

theorem transport_failure_status:
  assumes "snd (validation env c a) = Returns None"
    and "snd (resolution c a) = Returns (Some e)"
    and "snd (prepare env c a e) = Returns p"
    and "transportCall env c a p = Inl error"
  shows "reported (fst (action env c a)) =
      [case parsedStatus (snd (parsedError env c a error)) of
         Some s \<Rightarrow> if s \<noteq> 0 then s
                   else (case err_status error of Some r \<Rightarrow> r | None \<Rightarrow> 500)
       | None \<Rightarrow> (case err_status error of Some r \<Rightarrow> r | None \<Rightarrow> 500)]
    \<and> (\<exists>rj. snd (action env c a) = Rejected rj
          \<and> ge_status (rj_error rj) = parsedStatus (snd (parsedError env c a error)))"
  using failed_dispatch [OF assms]
  by (simp add: spreadError_status responseStatus_def parsedStatus_def)

theorem C5_witness:
  "transportCall env_down closure0 call0 prepared0 = Inl down
   \<and> reported (fst (action env_down closure0 call0)) = [503]
   \<and> (\<exists>rj. snd (action env_down closure0 call0) = Rejected rj
         \<and> ge_status (rj_error rj) = Some 503)
   \<and> transportCall env_bare closure0 call0 prepared0 = Inl bare
   \<and> reported (fst (action env_bare closure0 call0)) = [500]"
proof -
  have "err_status bare = None" by (simp add: bare_def)
  with transport_failure_status [OF ex_down(10) ex0(2) ex_down(11,12)]
  have "reported (fst (action env_bare closure0 call0)) = [500]"
    by (simp add: parsedStatus_def ex_down(13))
  with transport_failure_status [OF ex_down(1) ex0(2) ex_down(2,3)]
  show ?thesis by (simp add: ex_down parsedStatus_def)
qed

theorem C5_counterexample:
  "transportCall env_down closure_error_hook call0 prepared0 = Inl down
   \<and> reported (fst (action env_down closure_error_hook call0)) = [503]
   \<and> map_option (ge_status \<circ> rj_error)
        (rejection_of (snd (action env_down closure_error_hook call0))) = Some None"
proof -
  have "responseStatus (snd (parsedError env_down closure_error_hook call0 down)) down = 503"
    unfolding ex_down(9) by (simp add: responseStatus_def down_def)
  with failed_dispatch [OF ex_down(5,6,7,8)] show ?thesis
    by (simp add: ex_down(8,9) spreadError_def)
qed

subsection \<open>Undefined header values\<close>

text \<open>
  Claim C6, evaluated at a dispatch whose parameter producer returns the header object
  \<^verbatim>\<open>{'x-flag': undefined}\<close>. The claim says that no entry of the header object passed to the
  transport is undefined, also under such an override; the code passes the entry on. Without
  the override the same dispatch prunes its undefined entry: \<^verbatim>\<open>x-trace\<close>, listed for
  passthrough and absent from the inbound headers, is undefined after the passthrough loop
  and is not transmitted.
\<close>

theorem override_transmitted_unpruned:
  "snd (prepare env0 closure_override call0 backend) = Returns prepared_override
   \<and> headersOverridden prepared_override
   \<and> sent (fst (action env0 closure_override call0)) ''x-flag'' = Some Undefined
   \<and> snd (prepare env0 closure0 call0 backend) = Returns prepared0
   \<and> headersAfterPassthrough env0 closure0 call0 (p_host prepared0) (p_serviceProxy prepared0)
       (p_actionProxy prepared0) ''x-trace'' = Some Undefined
   \<and> sent (fst (action env0 closure0 call0)) ''x-trace'' = None"
proof -
  have o: "headersOverridden prepared_override"
    and f: "finalHeaders env0 closure_override call0 prepared_override ''x-flag''
              = Some Undefined"
    by (simp_all add: headersOverridden_def finalHeaders_def headers_of_def example_defs)
  have "sent (fst (action env0 closure_override call0)) ''x-flag'' = Some Undefined"
    using first_request_action(1) [OF ex_x(10,11,12)] f by (simp add: sent_def sent_entry)
  moreover have h: "headersAfterPassthrough env0 closure0 call0 (p_host prepared0)
       (p_serviceProxy prepared0) (p_actionProxy prepared0) ''x-trace'' = Some Undefined"
    by (simp add: headersAfterPassthrough_def seedHeaders_def proxyHeaders_def assign_def
        getProp_def objectPrototype_def Let_def example_defs)
  moreover have "finalHeaders env0 closure0 call0 prepared0 ''x-trace'' = None"
    using h
    by (simp add: finalHeaders_def headers_of_def composedHeaders_def actionHeaders_def
        withRequestId_def withIdempotency_def omitUndefined_def assign_def Let_def
        example_defs)
  then have "sent (fst (action env0 closure0 call0)) ''x-trace'' = None"
    using first_request_action(1) [OF ex0(1,2,3)]
    by (simp add: sent_def sent_entry env0_def)
  ultimately show ?thesis using o ex_x(12) ex0(3) by simp
qed

subsection \<open>Early failures\<close>

text \<open>
  Claim C7, as amended. For every call that passes validation and whose endpoint cannot be
  resolved (the selector function returns nothing; or the named key has no entry in the table
  and is not the name of a member the table object inherits; or, without selector, there is
  no default entry), the dispatch rejects with status 400 and code \<^verbatim>\<open>ENDPOINT_NOT_FOUND\<close>,
  the tracing span is closed (once, as the last call), and no transport call occurs. The
  hypothesis is that the lookup of lines 117 to 123 yields nothing truthy, which the cases of
  \<open>unresolvable_cases\<close> and \<open>lookup_absent\<close> imply.
\<close>

theorem unresolved_endpoint_rejects:
  assumes "snd (validation env c a) = Returns None" and "snd (resolution c a) = Returns None"
  shows "snd (action env c a) =
      Rejected
        \<lparr>rj_error =
           \<lparr>ge_status = Some 400, ge_message = Some (errorText c),
            ge_code = Some ''ENDPOINT_NOT_FOUND'', ge_details = None, ge_requestId = None\<rparr>,
         rj_debugHeaders = None\<rparr>
    \<and> closings (fst (action env c a)) = 1
    \<and> last (fst (action env c a)) = CtxEnd
    \<and> filter is_request (fst (action env c a)) = []"
  using assms quiet_spanOpening [of c] quiet_validation [of env c a] quiet_resolution [of c a]
  by (simp add: action_unresolved endpointError_def closings_def quiet_def)

theorem C7_witness:
  "snd (validation env0 closure_lost call0) = Returns None
   \<and> snd (resolution closure_lost call0) = Returns None
   \<and> rejection_of (snd (action env0 closure_lost call0)) = Some (endpointError closure_lost)
   \<and> filter is_request (fst (action env0 closure_lost call0)) = []
   \<and> closings (fst (action env0 closure_lost call0)) = 1"
  using unresolved_endpoint_rejects [OF ex_early(4,5)] ex_early(4,5)
  by (simp add: endpointError_def)

text \<open>
  The two ways the claim as written fails: invalid arguments are rejected before the (absent)
  endpoint is looked at, and the key \<^verbatim>\<open>toString\<close>, absent from the table, resolves to the
  inherited member and the transport is called.
\<close>

theorem C7_counterexample:
  "endpoints closure_schema_lost = None
   \<and> snd (action env0 closure_schema_lost call_invalid)
       = Rejected (validationError (JStr ''args: required''))
   \<and> ge_code (rj_error (validationError (JStr ''args: required''))) = Some ''INVALID_PARAMS''
   \<and> cfg_endpoint (config closure_toString) = EndpointKey ''toString''
   \<and> endpoints closure_toString = Some [''endpoint'' \<mapsto> Plain ''http://backend'']
   \<and> [''endpoint'' \<mapsto> Plain ''http://backend''] ''toString'' = None
   \<and> snd (validation env0 closure_toString call0) = Returns None
   \<and> snd (resolution closure_toString call0) = Returns (Some (Inherited ''toString''))
   \<and> rejection_of (snd (action env0 closure_toString call0)) = None
   \<and> instance_used (fst (action env0 closure_toString call0))
       = Some (PerCall \<lparr>cl_timeout = Some 5000, cl_retries = None,
                        cl_axiosConfig = Some Map.empty\<rparr>)"
proof -
  have v: "snd (validation env0 closure_toString call0) = Returns None"
    and r: "snd (resolution closure_toString call0) = Returns (Some (Inherited ''toString''))"
    and p: "snd (prepare env0 closure_toString call0 (Inherited ''toString''))
              = Returns prepared_toString"
    and t: "transportCall env0 closure_toString call0 prepared_toString = Inr pong"
    by (simp_all add: example_defs entry_defs prepare_defs transportCall_def)
  have "rejection_of (snd (action env0 closure_toString call0)) = None"
    using action_resolved [OF v r p t] by (simp add: onResponse_def)
  moreover have "instance_used (fst (action env0 closure_toString call0))
       = Some (PerCall \<lparr>cl_timeout = Some 5000, cl_retries = None,
                        cl_axiosConfig = Some Map.empty\<rparr>)"
    using first_request_action(2) [OF v r p] by (simp add: example_defs)
  moreover have "snd (action env0 closure_schema_lost call_invalid)
       = Rejected (validationError (JStr ''args: required''))"
    using action_invalid [OF ex_early(2)] by simp
  moreover have "endpoints closure_schema_lost = None"
    "cfg_endpoint (config closure_toString) = EndpointKey ''toString''"
    "endpoints closure_toString = Some [''endpoint'' \<mapsto> Plain ''http://backend'']"
    by (simp_all add: example_defs)
  ultimately show ?thesis using v r by (simp add: validationError_def)
qed

text \<open>
  Claim C8. For every call where the schema validator reports invalid fields, the dispatch
  rejects with status 400, code \<^verbatim>\<open>INVALID_PARAMS\<close> and details listing the invalid fields,
  and the tracing span is closed exactly once. The validator is the first collaborator
  called after the span is opened: on a failure nothing else is called before the span is
  closed, so validation precedes endpoint resolution, header assembly and request building.
\<close>

theorem validation_failure_rejects:
  assumes "validationSchema c = Some schema" and "json_truthy schema"
  shows "(\<exists>rest. fst (action env c a) = spanOpening c @ CallValidateArgs # rest)
    \<and> (validateArgs env (ac_args a) schema = Returns invalidParams
        \<and> json_truthy invalidParams \<longrightarrow>
         action env c a =
           (spanOpening c @ [CallValidateArgs, CtxLog ''Invalid params'', CtxEnd],
            Rejected
              \<lparr>rj_error =
                 \<lparr>ge_status = Some 400, ge_message = Some ''Validation failed'',
                  ge_code = Some ''INVALID_PARAMS'',
                  ge_details =
                    Some (JObj [(''title'', JStr ''Invalid params''),
                                (''description'', invalidParams)]),
                  ge_requestId = None\<rparr>,
               rj_debugHeaders = Some Map.empty\<rparr>)
         \<and> closings (fst (action env c a)) = 1)"
proof -
  have ev: "fst (validation env c a) = [CallValidateArgs]"
    using assms by (simp add: validation_def step_defs split: outcome.splits)
  have first: "\<exists>rest. fst (action env c a) = spanOpening c @ CallValidateArgs # rest"
    using ev by (simp add: action_def split: option.splits outcome.splits)
  have second: "action env c a =
           (spanOpening c @ [CallValidateArgs, CtxLog ''Invalid params'', CtxEnd],
            Rejected (validationError invalidParams))
         \<and> closings (fst (action env c a)) = 1"
    if "validateArgs env (ac_args a) schema = Returns invalidParams"
      and "json_truthy invalidParams"
  proof -
    have "snd (validation env c a) = Returns (Some invalidParams)"
      using assms that by (simp add: validation_def step_defs)
    from action_invalid [OF this] ev quiet_spanOpening [of c] show ?thesis
      by (simp add: closings_def quiet_def)
  qed
  show ?thesis using first second unfolding validationError_def by blast
qed

theorem C8_witness:
  "validationSchema closure_schema = Some (JObj [])
   \<and> validateArgs env0 (ac_args call_invalid) (JObj []) = Returns (JStr ''args: required'')
   \<and> action env0 closure_schema call_invalid =
     (spanOpening closure_schema @ [CallValidateArgs, CtxLog ''Invalid params'', CtxEnd],
      Rejected
        \<lparr>rj_error =
           \<lparr>ge_status = Some 400, ge_message = Some ''Validation failed'',
            ge_code = Some ''INVALID_PARAMS'',
            ge_details =
              Some (JObj [(''title'', JStr ''Invalid params''),
                          (''description'', JStr ''args: required'')]),
            ge_requestId = None\<rparr>,
         rj_debugHeaders = Some Map.empty\<rparr>)
   \<and> closings (fst (action env0 closure_schema call_invalid)) = 1"
proof -
  have h1: "validationSchema closure_schema = Some (JObj [])"
    by (simp add: example_defs entry_defs)
  have h2: "json_truthy (JObj [])" by simp
  have h3: "validateArgs env0 (ac_args call_invalid) (JObj []) = Returns (JStr ''args: required'')"
    by (simp add: example_defs)
  from validation_failure_rejects
    [OF h1 h2, of env0 call_invalid "JStr ''args: required''"] h1 h3
    quiet_spanOpening [of closure_schema]
  show ?thesis by (simp add: closings_def quiet_def)
qed

subsection \<open>Successful transport calls\<close>

text \<open>
  Claim C9. For every dispatch whose transport call succeeds and whose response-transform
  hook throws, the dispatch resolves, and the resolved response data is the payload of the
  transport response, untransformed.
\<close>

theorem failing_response_hook_keeps_payload:
  assumes "snd (validation env c a) = Returns None"
    and "snd (resolution c a) = Returns (Some e)"
    and "snd (prepare env c a e) = Returns p"
    and "transportCall env c a p = Inr resp"
    and "cfg_transformResponseData (config c) = Some hook"
    and "hook (r_data resp) (ac_args a) (r_headers resp) = Throws"
  shows "snd (action env c a) = Resolved (r_data resp) (callDebugHeaders env c a p)"
  using assms by (simp add: action_resolved onResponse_def transformResponseData_def)

theorem C9_witness:
  "snd (action env0 closure_broken_hook call0)
     = Resolved (JStr ''pong'') (callDebugHeaders env0 closure_broken_hook call0 prepared0)"
  using failing_response_hook_keeps_payload
    [OF ex0(9,10,11,12), of "\<lambda>d args h. Throws"]
  by (simp add: closure_broken_hook_def closure0_def config0_def pong_def)

text \<open>
  Claim C10. For every dispatch whose transport call resolves without throwing, the one
  stats record emitted reports status 200, whatever the status of the transport response.
\<close>

theorem success_reports_200:
  assumes "snd (validation env c a) = Returns None"
    and "snd (resolution c a) = Returns (Some e)"
    and "snd (prepare env c a e) = Returns p"
    and "transportCall env c a p = Inr resp"
  shows "reported (fst (action env c a)) = [200]"
  using assms
  by (simp add: action_resolved onResponse_def reported_append reported_quiet quiet_settled
      quiet_transformResponseData reported_emitStats)

theorem C10_witness:
  "r_status pong = 204
   \<and> transportCall env0 closure0 call0 prepared0 = Inr pong
   \<and> reported (fst (action env0 closure0 call0)) = [200]
   \<and> transportCall env0 closure_sink call0 prepared0 = Inr pong
   \<and> reported (fst (action env0 closure_sink call0)) = [200]"
  using success_reports_200 [OF ex0(1,2,3,4)] success_reports_200 [OF ex0(5,6,7,8)] ex0(4,8)
  by (simp add: pong_def)

end
